theory Spec2Isabelle
  imports Main "HOL-Library.AList"
begin

section \<open>JavaScript values and the object store\<close>

text \<open>
  The engine of \<^verbatim>\<open>src/templateEngine.js\<close> works on ordinary JavaScript values.
  Primitive values are modelled by a datatype; objects live in a store and are named by
  their address, so that \<^verbatim>\<open>===\<close> on objects is equality of addresses and two paths
  to one object see each other's writes.  Numbers are the integers (no NaN, no
  fractions), strings are lists of 8-bit characters, functions are opaque values:
  \<open>VFun n\<close> is a function of the page, \<open>VBuiltin s\<close> a built-in function of the host,
  named by its path.

  An object is its list of own enumerable data properties, in the order in which
  \<^verbatim>\<open>Object.keys\<close> reports them, a kind and the frozen flag.  A plain object inherits
  the members of \<^verbatim>\<open>Object.prototype\<close>, an array those of \<^verbatim>\<open>Array.prototype\<close> as
  well, and an array has its \<^verbatim>\<open>length\<close>.  Where the result depends on something
  that is not part of the store (the accessor \<^verbatim>\<open>__proto__\<close>, the members that other
  kinds of objects inherit, the conversion of a value to a number, the code of a
  component) the functions below return the error \<open>NotModelled\<close>.
\<close>

type_synonym addr = nat

datatype jsval =
    VUndef
  | VNull
  | VBool bool
  | VNum int
  | VStr string
  | VFun nat
  | VBuiltin string
  | VRef addr

datatype jstype = TUndefined | TObject | TBoolean | TNumber | TString | TFunction

datatype jserr = TypeError | RangeError | JsError string | NotModelled

text \<open>
  The change callback of a reactive container.  \<open>UserCb n\<close> is a callback handed to
  \<^verbatim>\<open>_makeReactive\<close>, \<open>NestedCb cb t k v\<close> is the closure
  \<^verbatim>\<open>() => updateCallback(target, String(key), target[key], value)\<close> that the get
  handler builds for a nested object, \<open>FetchStateCb c t d\<close> is the callback of a
  fetch-state container (lines 1395 to 1405) with the component instance, the target
  context and the data context that it closes over, and \<open>NoCb\<close> is a missing callback.
\<close>

datatype callback =
    NoCb
  | UserCb nat
  | NestedCb callback addr string jsval
  | FetchStateCb jsval jsval jsval

datatype objkind =
    PlainObj
  | ArrayObj
  | DateObj string
  | RegExpObj
  | NodeObj
  | OtherObj
  | ReactiveProxy addr callback string

record jsobj =
  okind :: objkind
  ofrozen :: bool
  oprops :: "(string \<times> jsval) list"

type_synonym heap = "jsobj list"

text \<open>
  One recorded call \<^verbatim>\<open>updateCallback(target, key, newValue, oldValue)\<close> of the callback
  \<open>cb_fun\<close>.
\<close>

record cbcall =
  cb_fun :: callback
  cb_target :: jsval
  cb_key :: string
  cb_new :: jsval
  cb_old :: jsval

definition bind_err :: "jserr + 'a \<Rightarrow> ('a \<Rightarrow> jserr + 'b) \<Rightarrow> jserr + 'b" where
  "bind_err m f = (case m of Inl e \<Rightarrow> Inl e | Inr x \<Rightarrow> f x)"

fun js_typeof :: "jsval \<Rightarrow> jstype" where
  "js_typeof VUndef = TUndefined"
| "js_typeof VNull = TObject"
| "js_typeof (VBool b) = TBoolean"
| "js_typeof (VNum n) = TNumber"
| "js_typeof (VStr s) = TString"
| "js_typeof (VFun f) = TFunction"
| "js_typeof (VBuiltin s) = TFunction"
| "js_typeof (VRef a) = TObject"

fun truthy :: "jsval \<Rightarrow> bool" where
  "truthy VUndef = False"
| "truthy VNull = False"
| "truthy (VBool b) = b"
| "truthy (VNum n) = (n \<noteq> 0)"
| "truthy (VStr s) = (s \<noteq> [])"
| "truthy (VFun f) = True"
| "truthy (VBuiltin s) = True"
| "truthy (VRef a) = True"

definition plain_object :: "(string \<times> jsval) list \<Rightarrow> jsobj" where
  "plain_object ps = \<lparr>okind = PlainObj, ofrozen = False, oprops = ps\<rparr>"

definition alloc :: "heap \<Rightarrow> jsobj \<Rightarrow> heap \<times> addr" where
  "alloc h ob = (h @ [ob], length h)"

definition own_has :: "heap \<Rightarrow> addr \<Rightarrow> string \<Rightarrow> bool" where
  "own_has h a k = (a < length h \<and> map_of (oprops (h ! a)) k \<noteq> None)"

definition own_get :: "heap \<Rightarrow> addr \<Rightarrow> string \<Rightarrow> jsval" where
  "own_get h a k =
     (if a < length h
      then (case map_of (oprops (h ! a)) k of None \<Rightarrow> VUndef | Some v \<Rightarrow> v)
      else VUndef)"

subsection \<open>Strings\<close>

definition starts_with :: "string \<Rightarrow> string \<Rightarrow> bool" where
  "starts_with p s = (take (length p) s = p)"

fun split_on :: "char \<Rightarrow> string \<Rightarrow> string list" where
  "split_on c [] = [[]]"
| "split_on c (x # xs) =
     (if x = c then [] # split_on c xs
      else (case split_on c xs of [] \<Rightarrow> [[x]] | w # ws \<Rightarrow> (x # w) # ws))"

text \<open>
  White space and line terminators of \<^verbatim>\<open>String.prototype.trim\<close> and of the regular
  expression class \<^verbatim>\<open>\s\<close>, as far as they are 8-bit characters: tab, line feed,
  vertical tab, form feed, carriage return, space and the no-break space.
\<close>

definition js_space :: "char \<Rightarrow> bool" where
  "js_space c = (of_char c \<in> {9, 10, 11, 12, 13, 32, 160 :: nat})"

definition js_trim :: "string \<Rightarrow> string" where
  "js_trim s = rev (dropWhile js_space (rev (dropWhile js_space s)))"

definition digit_char :: "nat \<Rightarrow> char" where
  "digit_char d = char_of (48 + d)"

fun show_nat :: "nat \<Rightarrow> string" where
  "show_nat n = (if n < 10 then [digit_char n] else show_nat (n div 10) @ [digit_char (n mod 10)])"

declare show_nat.simps [simp del]

definition show_int :: "int \<Rightarrow> string" where
  "show_int i = (if i < 0 then CHR ''-'' # show_nat (nat (- i)) else show_nat (nat i))"

fun join_with :: "string \<Rightarrow> string list \<Rightarrow> string" where
  "join_with sep [] = []"
| "join_with sep [x] = x"
| "join_with sep (x # y # ys) = x @ sep @ join_with sep (y # ys)"

subsection \<open>The order of the keys, and arrays\<close>

text \<open>
  A key is an array index when it is the decimal numeral, without a leading zero, of a
  number below \<open>2\<^sup>3\<^sup>2 - 1\<close>.  The own keys of an object are listed with the array
  indices first, in ascending order, and the other keys after them in the order of their
  creation.
\<close>

definition is_digit :: "char \<Rightarrow> bool" where
  "is_digit c = (48 \<le> (of_char c :: nat) \<and> (of_char c :: nat) \<le> 57)"

fun digits_value :: "nat \<Rightarrow> string \<Rightarrow> nat" where
  "digits_value acc [] = acc"
| "digits_value acc (c # cs) = digits_value (10 * acc + (of_char c - 48)) cs"

definition index_of_key :: "string \<Rightarrow> nat option" where
  "index_of_key k =
     (if k \<noteq> [] \<and> list_all is_digit k \<and> (hd k \<noteq> CHR ''0'' \<or> k = ''0'') \<and>
         digits_value 0 k < 4294967295
      then Some (digits_value 0 k) else None)"

fun insert_index :: "nat \<Rightarrow> string \<times> jsval \<Rightarrow> (string \<times> jsval) list \<Rightarrow> (string \<times> jsval) list" where
  "insert_index i kv [] = [kv]"
| "insert_index i kv (p # ps) =
     (case index_of_key (fst p) of
        Some j \<Rightarrow> if j < i then p # insert_index i kv ps else kv # p # ps
      | None \<Rightarrow> kv # p # ps)"

definition put_member :: "string \<Rightarrow> jsval \<Rightarrow> (string \<times> jsval) list \<Rightarrow> (string \<times> jsval) list" where
  "put_member k v ps =
     (if map_of ps k \<noteq> None then AList.update k v ps
      else (case index_of_key k of
              Some i \<Rightarrow> insert_index i (k, v) ps
            | None \<Rightarrow> ps @ [(k, v)]))"

definition store_own :: "heap \<Rightarrow> addr \<Rightarrow> string \<Rightarrow> jsval \<Rightarrow> heap" where
  "store_own h a k v = h[a := (h ! a)\<lparr>oprops := put_member k v (oprops (h ! a))\<rparr>]"

definition remove_own :: "heap \<Rightarrow> addr \<Rightarrow> string \<Rightarrow> heap" where
  "remove_own h a k = h[a := (h ! a)\<lparr>oprops := AList.delete k (oprops (h ! a))\<rparr>]"

text \<open>
  The elements of an array are its members at array indices.  Its length is one more
  than the greatest index: an array that ends in holes is not part of the model.
\<close>

definition array_length :: "(string \<times> jsval) list \<Rightarrow> nat" where
  "array_length ps =
     fold (\<lambda>kv m. case index_of_key (fst kv) of Some i \<Rightarrow> max m (Suc i) | None \<Rightarrow> m) ps 0"

definition array_elems :: "(string \<times> jsval) list \<Rightarrow> (string \<times> jsval) list" where
  "array_elems ps =
     map (\<lambda>i. (show_nat i, case map_of ps (show_nat i) of Some v \<Rightarrow> v | None \<Rightarrow> VUndef))
       [0..<array_length ps]"

subsection \<open>Members, own and inherited\<close>

text \<open>
  The function members of \<^verbatim>\<open>Object.prototype\<close> and of \<^verbatim>\<open>Array.prototype\<close> with
  string keys (ECMAScript 2023).  \<open>inherited kd k\<close> is what an object of kind \<open>kd\<close>
  without an own member \<open>k\<close> answers to \<^verbatim>\<open>o[k]\<close>, if it has such a member at all.
\<close>

definition object_prototype_names :: "string list" where
  "object_prototype_names =
     [''constructor'', ''__defineGetter__'', ''__defineSetter__'', ''hasOwnProperty'',
      ''__lookupGetter__'', ''__lookupSetter__'', ''isPrototypeOf'', ''propertyIsEnumerable'',
      ''toString'', ''valueOf'', ''toLocaleString'']"

definition array_prototype_names :: "string list" where
  "array_prototype_names =
     [''at'', ''concat'', ''constructor'', ''copyWithin'', ''entries'', ''every'', ''fill'',
      ''filter'', ''find'', ''findIndex'', ''findLast'', ''findLastIndex'', ''flat'',
      ''flatMap'', ''forEach'', ''includes'', ''indexOf'', ''join'', ''keys'',
      ''lastIndexOf'', ''map'', ''pop'', ''push'', ''reduce'', ''reduceRight'', ''reverse'',
      ''shift'', ''slice'', ''some'', ''sort'', ''splice'', ''toLocaleString'',
      ''toReversed'', ''toSorted'', ''toSpliced'', ''toString'', ''unshift'', ''values'',
      ''with'']"

definition inherited :: "objkind \<Rightarrow> string \<Rightarrow> jserr + jsval option" where
  "inherited kd k =
     (if k = ''__proto__'' then Inl NotModelled
      else
        (case kd of
           PlainObj \<Rightarrow>
             Inr (if k \<in> set object_prototype_names
                  then Some (VBuiltin (''Object.prototype.'' @ k)) else None)
         | ArrayObj \<Rightarrow>
             Inr (if k \<in> set array_prototype_names
                  then Some (VBuiltin (''Array.prototype.'' @ k))
                  else if k \<in> set object_prototype_names
                  then Some (VBuiltin (''Object.prototype.'' @ k)) else None)
         | _ \<Rightarrow> Inl NotModelled))"

text \<open>\<^verbatim>\<open>target[key]\<close> and \<^verbatim>\<open>key in target\<close> on an object that is no proxy.\<close>

definition member_get :: "heap \<Rightarrow> addr \<Rightarrow> string \<Rightarrow> jserr + jsval" where
  "member_get h a k =
     (if \<not> a < length h then Inr VUndef
      else if own_has h a k then Inr (own_get h a k)
      else if okind (h ! a) = ArrayObj \<and> k = ''length''
      then Inr (VNum (int (array_length (oprops (h ! a)))))
      else bind_err (inherited (okind (h ! a)) k)
             (\<lambda>r. Inr (case r of Some v \<Rightarrow> v | None \<Rightarrow> VUndef)))"

definition member_has :: "heap \<Rightarrow> addr \<Rightarrow> string \<Rightarrow> jserr + bool" where
  "member_has h a k =
     (if \<not> a < length h then Inr False
      else if own_has h a k then Inr True
      else if okind (h ! a) = ArrayObj \<and> k = ''length'' then Inr True
      else if k = ''__proto__'' then Inr True
      else bind_err (inherited (okind (h ! a)) k) (\<lambda>r. Inr (r \<noteq> None)))"

text \<open>
  \<^verbatim>\<open>Reflect.set\<close> on an object that is no proxy.  It reports \<open>False\<close> on a frozen
  object and writes nothing.  An assignment to \<^verbatim>\<open>__proto__\<close> creates no own member:
  a primitive value is ignored, an object would become the prototype.  The length of an
  array is set to a number; a length that is no number, and one that would leave holes at
  the end, are not modelled.  On objects of the other kinds only the private members of
  the engine, whose names start with \<^verbatim>\<open>_spx\<close>, are known to be ordinary members.
\<close>

definition array_set_length :: "heap \<Rightarrow> addr \<Rightarrow> jsval \<Rightarrow> jserr + heap \<times> bool" where
  "array_set_length h a v =
     (case (case v of
              VNum n \<Rightarrow> Inr n
            | VUndef \<Rightarrow> Inl RangeError
            | VNull \<Rightarrow> Inr 0
            | VBool b \<Rightarrow> Inr (if b then 1 else 0)
            | _ \<Rightarrow> Inl NotModelled) of
        Inl e \<Rightarrow> Inl e
      | Inr n \<Rightarrow>
          (if n < 0 \<or> 4294967295 < n then Inl RangeError
           else if nat n = array_length (oprops (h ! a)) then Inr (h, True)
           else if ofrozen (h ! a) then Inr (h, False)
           else
             (let ps = filter (\<lambda>kv. case index_of_key (fst kv) of
                                       Some i \<Rightarrow> i < nat n | None \<Rightarrow> True)
                         (oprops (h ! a))
              in if array_length ps = nat n
                 then Inr (h[a := (h ! a)\<lparr>oprops := ps\<rparr>], True)
                 else Inl NotModelled)))"

definition reflect_set :: "heap \<Rightarrow> addr \<Rightarrow> string \<Rightarrow> jsval \<Rightarrow> jserr + heap \<times> bool" where
  "reflect_set h a k v =
     (if \<not> a < length h then Inr (h, False)
      else if own_has h a k
      then (if ofrozen (h ! a) then Inr (h, False) else Inr (store_own h a k v, True))
      else if k = ''__proto__''
      then (if js_typeof v = TObject then Inl NotModelled else Inr (h, True))
      else if okind (h ! a) = ArrayObj \<and> k = ''length'' then array_set_length h a v
      else if ofrozen (h ! a) then Inr (h, False)
      else if okind (h ! a) = PlainObj \<or> okind (h ! a) = ArrayObj \<or> starts_with ''_spx'' k
      then Inr (store_own h a k v, True)
      else Inl NotModelled)"

text \<open>
  \<^verbatim>\<open>Reflect.deleteProperty\<close> on an object that is no proxy: a missing member counts
  as deleted, a member of a frozen object and the length of an array cannot be deleted.
  Deleting the last element of an array leaves a hole at its end.
\<close>

definition reflect_delete :: "heap \<Rightarrow> addr \<Rightarrow> string \<Rightarrow> jserr + heap \<times> bool" where
  "reflect_delete h a k =
     (if \<not> a < length h then Inr (h, False)
      else if okind (h ! a) = ArrayObj \<and> k = ''length'' \<and> \<not> own_has h a k then Inr (h, False)
      else if \<not> own_has h a k then Inr (h, True)
      else if ofrozen (h ! a) then Inr (h, False)
      else if okind (h ! a) = ArrayObj \<and>
              array_length (AList.delete k (oprops (h ! a))) \<noteq> array_length (oprops (h ! a))
      then Inl NotModelled
      else Inr (remove_own h a k, True))"

section \<open>The reactive store: \<^verbatim>\<open>_makeReactive\<close>\<close>

text \<open>
  \<^verbatim>\<open>new Proxy(obj, handler)\<close> is an object of kind \<open>ReactiveProxy\<close> that holds
  what the handler closes over: the target, the change callback and the context name.
  \<open>is_reactive h v\<close> is the test \<^verbatim>\<open>v._isReactiveProxy\<close>: the get handler answers
  \<^verbatim>\<open>true\<close> to it, any other object answers with its own member.
\<close>

definition is_proxy :: "heap \<Rightarrow> addr \<Rightarrow> bool" where
  "is_proxy h a =
     (a < length h \<and> (case okind (h ! a) of ReactiveProxy t cb nm \<Rightarrow> True | _ \<Rightarrow> False))"

text \<open>An object of the store that is no proxy.\<close>

definition ordinary :: "heap \<Rightarrow> addr \<Rightarrow> bool" where
  "ordinary h a = (a < length h \<and> \<not> is_proxy h a)"

definition is_reactive :: "heap \<Rightarrow> jsval \<Rightarrow> bool" where
  "is_reactive h v =
     (case v of
        VRef a \<Rightarrow> (if is_proxy h a then True else truthy (own_get h a ''_isReactiveProxy''))
      | _ \<Rightarrow> False)"

definition is_frozen :: "heap \<Rightarrow> jsval \<Rightarrow> bool" where
  "is_frozen h v = (case v of VRef a \<Rightarrow> a < length h \<and> ofrozen (h ! a) | _ \<Rightarrow> True)"

definition kind_of :: "heap \<Rightarrow> jsval \<Rightarrow> objkind option" where
  "kind_of h v = (case v of VRef a \<Rightarrow> (if a < length h then Some (okind (h ! a)) else None) | _ \<Rightarrow> None)"

definition is_date :: "heap \<Rightarrow> jsval \<Rightarrow> bool" where
  "is_date h v = (case kind_of h v of Some (DateObj ds) \<Rightarrow> True | _ \<Rightarrow> False)"

text \<open>
  The guard of the get handler: \<^verbatim>\<open>typeof value === 'object' && value !== null &&
  !value._isReactiveProxy && !Object.isFrozen(value) && !(value instanceof Node) &&
  !(value instanceof Date) && !(value instanceof RegExp) && (Array.isArray(value) ||
  Object.getPrototypeOf(value) === Object.prototype)\<close>.
\<close>

definition wrappable :: "heap \<Rightarrow> jsval \<Rightarrow> bool" where
  "wrappable h v =
     (js_typeof v = TObject \<and> v \<noteq> VNull \<and>
      \<not> is_reactive h v \<and>
      \<not> is_frozen h v \<and>
      kind_of h v \<noteq> Some NodeObj \<and>
      \<not> is_date h v \<and>
      kind_of h v \<noteq> Some RegExpObj \<and>
      (kind_of h v = Some ArrayObj \<or> kind_of h v = Some PlainObj))"

definition makeReactive :: "heap \<Rightarrow> jsval \<Rightarrow> callback \<Rightarrow> string \<Rightarrow> heap \<times> jsval" where
  "makeReactive h obj updateCallback contextName =
     (if truthy obj \<and> is_reactive h obj then (h, obj)
      else if js_typeof obj \<noteq> TObject \<or> obj = VNull then (h, obj)
      else (case obj of
              VRef a \<Rightarrow>
                (h @ [\<lparr>okind = ReactiveProxy a updateCallback contextName,
                        ofrozen = False, oprops = []\<rparr>],
                 VRef (length h))
            | _ \<Rightarrow> (h, obj)))"

subsection \<open>JSON.stringify\<close>

text \<open>
  The set handler compares \<^verbatim>\<open>JSON.stringify(oldValue)\<close> with
  \<^verbatim>\<open>JSON.stringify(value)\<close>.  The serialisation is \<open>None\<close> for
  \<^verbatim>\<open>undefined\<close> and functions, skips such members of an object, writes them and the
  holes of an array as \<^verbatim>\<open>null\<close>, and raises a TypeError on a cyclic structure.  The
  stack \<open>stk\<close> holds the objects being serialised.  A reactive proxy over a plain object
  or an array serialises as its target does; its members are read through the get
  handler, so the serialisation is left open when a member would be wrapped by that read.
\<close>

definition hex_digit :: "nat \<Rightarrow> char" where
  "hex_digit d = (if d < 10 then char_of (48 + d) else char_of (87 + d))"

definition json_escape_char :: "char \<Rightarrow> string" where
  "json_escape_char c =
     (if c = CHR ''\"'' then [CHR 0x5C, CHR ''\"'']
      else if c = CHR 0x5C then [CHR 0x5C, CHR 0x5C]
      else if c = CHR 0x08 then [CHR 0x5C, CHR ''b'']
      else if c = CHR 0x0C then [CHR 0x5C, CHR ''f'']
      else if c = CHR 0x0A then [CHR 0x5C, CHR ''n'']
      else if c = CHR 0x0D then [CHR 0x5C, CHR ''r'']
      else if c = CHR 0x09 then [CHR 0x5C, CHR ''t'']
      else if (of_char c :: nat) < 32
        then [CHR 0x5C, CHR ''u'', CHR ''0'', CHR ''0'',
              hex_digit (of_char c div 16), hex_digit (of_char c mod 16)]
      else [c])"

definition json_quote :: "string \<Rightarrow> string" where
  "json_quote s = CHR ''\"'' # concat (map json_escape_char s) @ [CHR ''\"'']"

function json_val :: "heap \<Rightarrow> addr list \<Rightarrow> jsval \<Rightarrow> jserr + string option"
  and json_fields :: "heap \<Rightarrow> addr list \<Rightarrow> (string \<times> jsval) list \<Rightarrow> jserr + string list"
  and json_elems :: "heap \<Rightarrow> addr list \<Rightarrow> (string \<times> jsval) list \<Rightarrow> jserr + string list"
where
  "json_val h stk VUndef = Inr None"
| "json_val h stk VNull = Inr (Some ''null'')"
| "json_val h stk (VBool b) = Inr (Some (if b then ''true'' else ''false''))"
| "json_val h stk (VNum n) = Inr (Some (show_int n))"
| "json_val h stk (VStr s) = Inr (Some (json_quote s))"
| "json_val h stk (VFun f) = Inr None"
| "json_val h stk (VBuiltin s) = Inr None"
| "json_val h stk (VRef a) =
     (if a \<in> set stk \<or> length h \<le> a then Inl TypeError
      else (case okind (h ! a) of
          ReactiveProxy t cb nm \<Rightarrow>
            (if \<not> t < length h \<or>
                (okind (h ! t) \<noteq> PlainObj \<and> okind (h ! t) \<noteq> ArrayObj) \<or>
                (\<exists>kv \<in> set (oprops (h ! t)). wrappable h (snd kv))
             then Inl NotModelled
             else json_val h (a # stk) (VRef t))
        | DateObj ds \<Rightarrow> Inr (Some (json_quote ds))
        | ArrayObj \<Rightarrow>
            (case json_elems h (a # stk) (array_elems (oprops (h ! a))) of
               Inl e \<Rightarrow> Inl e
             | Inr ps \<Rightarrow> Inr (Some (''['' @ join_with '','' ps @ '']'')))
        | PlainObj \<Rightarrow>
            (case json_fields h (a # stk) (oprops (h ! a)) of
               Inl e \<Rightarrow> Inl e
             | Inr ps \<Rightarrow> Inr (Some (''{'' @ join_with '','' ps @ ''}'')))
        | RegExpObj \<Rightarrow>
            (case json_fields h (a # stk) (oprops (h ! a)) of
               Inl e \<Rightarrow> Inl e
             | Inr ps \<Rightarrow> Inr (Some (''{'' @ join_with '','' ps @ ''}'')))
        | NodeObj \<Rightarrow>
            (case json_fields h (a # stk) (oprops (h ! a)) of
               Inl e \<Rightarrow> Inl e
             | Inr ps \<Rightarrow> Inr (Some (''{'' @ join_with '','' ps @ ''}'')))
        | OtherObj \<Rightarrow>
            (case json_fields h (a # stk) (oprops (h ! a)) of
               Inl e \<Rightarrow> Inl e
             | Inr ps \<Rightarrow> Inr (Some (''{'' @ join_with '','' ps @ ''}'')))))"
| "json_fields h stk [] = Inr []"
| "json_fields h stk (kv # kvs) =
     (case json_val h stk (snd kv) of
        Inl e \<Rightarrow> Inl e
      | Inr r \<Rightarrow>
          (case json_fields h stk kvs of
             Inl e \<Rightarrow> Inl e
           | Inr ps \<Rightarrow>
               Inr (case r of None \<Rightarrow> ps | Some s \<Rightarrow> (json_quote (fst kv) @ '':'' @ s) # ps)))"
| "json_elems h stk [] = Inr []"
| "json_elems h stk (kv # kvs) =
     (case json_val h stk (snd kv) of
        Inl e \<Rightarrow> Inl e
      | Inr r \<Rightarrow>
          (case json_elems h stk kvs of
             Inl e \<Rightarrow> Inl e
           | Inr ps \<Rightarrow> Inr ((case r of None \<Rightarrow> ''null'' | Some s \<Rightarrow> s) # ps)))"
  by pat_completeness auto

termination
proof -
  have less: "card ({..<length h} - set stk) - Suc 0 < card ({..<length h} - set stk)"
    if "a \<notin> set stk" and "a < length h" for a stk and h :: heap
  proof -
    have "a \<in> {..<length h} - set stk"
      using that by simp
    then have "0 < card ({..<length h} - set stk)"
      by (auto simp: card_gt_0_iff)
    then show ?thesis
      by simp
  qed
  show ?thesis
    by (relation "measures
      [\<lambda>x. case x of
          Inl (h, stk, v) \<Rightarrow> card ({..<length h} - set stk)
        | Inr (Inl (h, stk, kvs)) \<Rightarrow> card ({..<length h} - set stk)
        | Inr (Inr (h, stk, kvs)) \<Rightarrow> card ({..<length h} - set stk),
       \<lambda>x. case x of
          Inl (h, stk, v) \<Rightarrow> 0
        | Inr (Inl (h, stk, kvs)) \<Rightarrow> Suc (length kvs)
        | Inr (Inr (h, stk, kvs)) \<Rightarrow> Suc (length kvs)]")
      (auto simp: less not_le)
qed

definition json_stringify :: "heap \<Rightarrow> jsval \<Rightarrow> jserr + string option" where
  "json_stringify h v = json_val h [] v"

subsection \<open>The handlers\<close>

text \<open>
  Calling a change callback.  The closure of a nested object ignores its own arguments and
  calls the outer callback with \<^verbatim>\<open>(target, String(key), target[key], value)\<close>, so a
  call ends at the callback that was handed to \<^verbatim>\<open>_makeReactive\<close>: \<open>cb_call\<close> is
  that call with its four arguments.  It is recorded; what the callback then does is part
  of the engine that owns it.  Calling a missing callback is a TypeError.
\<close>

fun cb_call :: "callback \<Rightarrow> heap \<Rightarrow> jsval \<Rightarrow> string \<Rightarrow> jsval \<Rightarrow> jsval \<Rightarrow> jserr + cbcall" where
  "cb_call NoCb h t k nv ov = Inl TypeError"
| "cb_call (UserCb n) h t k nv ov =
     Inr \<lparr>cb_fun = UserCb n, cb_target = t, cb_key = k, cb_new = nv, cb_old = ov\<rparr>"
| "cb_call (FetchStateCb c tc dc) h t k nv ov =
     Inr \<lparr>cb_fun = FetchStateCb c tc dc, cb_target = t, cb_key = k, cb_new = nv, cb_old = ov\<rparr>"
| "cb_call (NestedCb cb tgt key v) h t k nv ov =
     bind_err (member_get h tgt key) (\<lambda>cur. cb_call cb h (VRef tgt) key cur v)"

definition invoke_cb ::
  "callback \<Rightarrow> heap \<Rightarrow> jsval \<Rightarrow> string \<Rightarrow> jsval \<Rightarrow> jsval \<Rightarrow> cbcall list \<Rightarrow> jserr + cbcall list"
where
  "invoke_cb cb h t k nv ov calls = bind_err (cb_call cb h t k nv ov) (\<lambda>c. Inr (calls @ [c]))"

text \<open>An assignment \<^verbatim>\<open>target[key] = v\<close> to an object that is no proxy, in strict code.\<close>

definition assign_own :: "heap \<Rightarrow> addr \<Rightarrow> string \<Rightarrow> jsval \<Rightarrow> jserr + heap" where
  "assign_own h a k v =
     bind_err (reflect_set h a k v) (\<lambda>r. if snd r then Inr (fst r) else Inl TypeError)"

text \<open>The \<^verbatim>\<open>get\<close> handler (lines 164 to 187).\<close>

definition reactive_get ::
  "heap \<Rightarrow> addr \<Rightarrow> callback \<Rightarrow> string \<Rightarrow> string \<Rightarrow> jserr + heap \<times> jsval"
where
  "reactive_get h target updateCallback contextName key =
     (if key = ''_isReactiveProxy'' then Inr (h, VBool True)
      else if key = ''_reactiveTarget'' then Inr (h, VRef target)
      else
        bind_err (member_get h target key) (\<lambda>v.
          if wrappable h v then
            bind_err (member_get h target key) (\<lambda>cur.
              if cur = v then
                (case makeReactive h v (NestedCb updateCallback target key v)
                        (contextName @ ''.'' @ key) of
                   (h1, p) \<Rightarrow>
                     bind_err (assign_own h1 target key p) (\<lambda>h2.
                     bind_err (member_get h2 target key) (\<lambda>r. Inr (h2, r))))
              else Inr (h, cur))
          else bind_err (member_get h target key) (\<lambda>r. Inr (h, r))))"

text \<open>
  The \<^verbatim>\<open>set\<close> handler (lines 189 to 208).  It returns the store and the recorded
  calls as they are when the handler returns or raises, and the error or the handler's
  result.
\<close>

definition reactive_set ::
  "heap \<Rightarrow> cbcall list \<Rightarrow> addr \<Rightarrow> callback \<Rightarrow> string \<Rightarrow> string \<Rightarrow> jsval
   \<Rightarrow> heap \<times> cbcall list \<times> (jserr + bool)"
where
  "reactive_set h calls target updateCallback contextName key v =
     (case member_get h target key of
        Inl e \<Rightarrow> (h, calls, Inl e)
      | Inr oldValue \<Rightarrow>
          if v = oldValue \<and> (js_typeof v \<noteq> TObject \<or> v = VNull) then (h, calls, Inr True)
          else
            (case reflect_set h target key v of
               Inl e \<Rightarrow> (h, calls, Inl e)
             | Inr (h1, result) \<Rightarrow>
                 if result \<and> \<not> starts_with ''_'' key then
                   (case json_stringify h1 oldValue of
                      Inl e \<Rightarrow> (h1, calls, Inl e)
                    | Inr so \<Rightarrow>
                        (case json_stringify h1 v of
                           Inl e \<Rightarrow> (h1, calls, Inl e)
                         | Inr sn \<Rightarrow>
                             if so \<noteq> sn then
                               (if updateCallback \<noteq> NoCb then
                                  (case invoke_cb updateCallback h1 (VRef target) key v
                                          oldValue calls of
                                     Inl e \<Rightarrow> (h1, calls, Inl e)
                                   | Inr calls' \<Rightarrow> (h1, calls', Inr result))
                                else (h1, calls, Inr result))
                             else (h1, calls, Inr result)))
                 else (h1, calls, Inr result)))"

text \<open>The \<^verbatim>\<open>deleteProperty\<close> handler (lines 210 to 221).\<close>

definition reactive_delete ::
  "heap \<Rightarrow> cbcall list \<Rightarrow> addr \<Rightarrow> callback \<Rightarrow> string \<Rightarrow> string
   \<Rightarrow> heap \<times> cbcall list \<times> (jserr + bool)"
where
  "reactive_delete h calls target updateCallback contextName key =
     (case member_get h target key of
        Inl e \<Rightarrow> (h, calls, Inl e)
      | Inr oldValue \<Rightarrow>
          (case reflect_delete h target key of
             Inl e \<Rightarrow> (h, calls, Inl e)
           | Inr (h1, result) \<Rightarrow>
               if result \<and> \<not> starts_with ''_'' key then
                 (if updateCallback \<noteq> NoCb then
                    (case invoke_cb updateCallback h1 (VRef target) key VUndef oldValue calls of
                       Inl e \<Rightarrow> (h1, calls, Inl e)
                     | Inr calls' \<Rightarrow> (h1, calls', Inr result))
                  else (h1, calls, Inr result))
               else (h1, calls, Inr result)))"

subsection \<open>Property access in the engine's (strict) code\<close>

text \<open>
  \<^verbatim>\<open>o[k]\<close>, \<^verbatim>\<open>o[k] = v\<close>, \<^verbatim>\<open>delete o[k]\<close> and \<^verbatim>\<open>k in o\<close> as the methods of the
  class use them: a reactive proxy runs its handlers (it has no \<^verbatim>\<open>has\<close> trap), a
  failed assignment or deletion is a TypeError, and so is a member of \<^verbatim>\<open>undefined\<close> or
  \<^verbatim>\<open>null\<close> and the operator \<^verbatim>\<open>in\<close> on a primitive value.  The members of
  functions and of primitive values are not modelled, but an assignment to a member of a
  number, a string or a boolean always fails.
\<close>

definition get_prop :: "heap \<Rightarrow> jsval \<Rightarrow> string \<Rightarrow> jserr + heap \<times> jsval" where
  "get_prop h ob k =
     (case ob of
        VRef a \<Rightarrow>
          (if a < length h then
             (case okind (h ! a) of
                ReactiveProxy t cb nm \<Rightarrow> reactive_get h t cb nm k
              | _ \<Rightarrow> bind_err (member_get h a k) (\<lambda>v. Inr (h, v)))
           else Inr (h, VUndef))
      | VUndef \<Rightarrow> Inl TypeError
      | VNull \<Rightarrow> Inl TypeError
      | _ \<Rightarrow> Inl NotModelled)"

definition set_prop ::
  "heap \<Rightarrow> cbcall list \<Rightarrow> jsval \<Rightarrow> string \<Rightarrow> jsval \<Rightarrow> heap \<times> cbcall list \<times> jserr option"
where
  "set_prop h calls ob k v =
     (case ob of
        VRef a \<Rightarrow>
          (if a < length h then
             (case okind (h ! a) of
                ReactiveProxy t cb nm \<Rightarrow>
                  (case reactive_set h calls t cb nm k v of
                     (h', calls', Inl e) \<Rightarrow> (h', calls', Some e)
                   | (h', calls', Inr ok) \<Rightarrow>
                       (h', calls', if ok then None else Some TypeError))
              | _ \<Rightarrow>
                  (case reflect_set h a k v of
                     Inl e \<Rightarrow> (h, calls, Some e)
                   | Inr (h', ok) \<Rightarrow> (h', calls, if ok then None else Some TypeError)))
           else (h, calls, Some TypeError))
      | VFun f \<Rightarrow> (h, calls, Some NotModelled)
      | VBuiltin s \<Rightarrow> (h, calls, Some NotModelled)
      | VUndef \<Rightarrow> (h, calls, Some TypeError)
      | VNull \<Rightarrow> (h, calls, Some TypeError)
      | _ \<Rightarrow> (h, calls, Some (if k = ''__proto__'' then NotModelled else TypeError)))"

definition delete_prop ::
  "heap \<Rightarrow> cbcall list \<Rightarrow> jsval \<Rightarrow> string \<Rightarrow> heap \<times> cbcall list \<times> jserr option"
where
  "delete_prop h calls ob k =
     (case ob of
        VRef a \<Rightarrow>
          (if a < length h then
             (case okind (h ! a) of
                ReactiveProxy t cb nm \<Rightarrow>
                  (case reactive_delete h calls t cb nm k of
                     (h', calls', Inl e) \<Rightarrow> (h', calls', Some e)
                   | (h', calls', Inr ok) \<Rightarrow>
                       (h', calls', if ok then None else Some TypeError))
              | _ \<Rightarrow>
                  (case reflect_delete h a k of
                     Inl e \<Rightarrow> (h, calls, Some e)
                   | Inr (h', ok) \<Rightarrow> (h', calls, if ok then None else Some TypeError)))
           else (h, calls, Some TypeError))
      | VUndef \<Rightarrow> (h, calls, Some TypeError)
      | VNull \<Rightarrow> (h, calls, Some TypeError)
      | _ \<Rightarrow> (h, calls, Some NotModelled))"

definition has_prop :: "heap \<Rightarrow> jsval \<Rightarrow> string \<Rightarrow> jserr + bool" where
  "has_prop h ob k =
     (case ob of
        VRef a \<Rightarrow>
          (if a < length h then
             (case okind (h ! a) of
                ReactiveProxy t cb nm \<Rightarrow> member_has h t k
              | _ \<Rightarrow> member_has h a k)
           else Inr False)
      | VFun f \<Rightarrow> Inl NotModelled
      | VBuiltin s \<Rightarrow> Inl NotModelled
      | _ \<Rightarrow> Inl TypeError)"

section \<open>The engine: root data, the render scheduler and \<^verbatim>\<open>applyData\<close>\<close>

text \<open>
  The part of the state of a \<^verbatim>\<open>SpandrixEngine\<close> that the constructor (lines 9 to
  95), the callbacks of its reactive containers, \<^verbatim>\<open>_scheduleRootReRender\<close> (lines 2284
  to 2295), \<^verbatim>\<open>_reRenderRoot\<close> (lines 2297 to 2348) and \<^verbatim>\<open>applyData\<close> (lines 2350 to
  2377) read and write.  The store is the JavaScript heap.  \<open>components\<close> are the
  component instances of the elements with the attribute \<^verbatim>\<open>data-spx-id\<close>, and
  \<open>stateWatchers\<close> the paths of the registered watchers of \<^verbatim>\<open>$state\<close>.  \<open>renders\<close>
  records every run of \<^verbatim>\<open>_reRenderRoot\<close> that passes the root check, with its template
  and data, and \<open>rootChanges\<close> counts the runs of \<^verbatim>\<open>_rootDataUpdateCallback\<close>.  The
  microtask queue holds the callbacks of \<^verbatim>\<open>Promise.resolve().then(...).catch(...)\<close>.

  A function of the engine takes the state and returns the state with an error or a
  result: the state is there also when the function raises.
\<close>

datatype microtask = RootRerenderThen | RootRerenderCatch

record engine =
  e_heap :: heap
  root_present :: bool
  root_innerHTML :: string
  originalRootTemplate :: string
  currentRootData :: jsval
  currentRootDataTarget :: jsval
  currentRootTemplateString :: jsval
  rootRerenderScheduled :: bool
  globalData :: jsval
  state_store :: jsval
  components :: "addr list"
  stateWatchers :: "string list"
  microtasks :: "microtask list"
  rootChanges :: nat
  renders :: "(jsval \<times> jsval) list"
  console :: "string list"

definition ebind :: "'w \<times> (jserr + 'a) \<Rightarrow> ('a \<Rightarrow> 'w \<Rightarrow> 'w \<times> (jserr + 'b)) \<Rightarrow> 'w \<times> (jserr + 'b)" where
  "ebind m f = (case m of (w, Inl err) \<Rightarrow> (w, Inl err) | (w, Inr x) \<Rightarrow> f x w)"

definition root_cb :: nat where "root_cb = 0"
definition globalData_cb :: nat where "globalData_cb = 1"
definition state_cb :: nat where "state_cb = 2"

definition new_engine :: "heap \<Rightarrow> bool \<Rightarrow> string \<Rightarrow> string \<Rightarrow> jserr + engine" where
  "new_engine h0 rootFound rootSelector html =
     (if \<not> rootFound
      then Inl (JsError (''Spandrix: Root element with selector \"'' @ rootSelector @ ''\" not found.''))
      else
        (case alloc h0 (plain_object []) of (h1, t) \<Rightarrow>
         case makeReactive h1 (VRef t) (UserCb root_cb) ''_currentRootData_initial'' of (h2, rd) \<Rightarrow>
         case alloc h2 (plain_object []) of (h3, g) \<Rightarrow>
         case makeReactive h3 (VRef g) (UserCb globalData_cb) ''globalData'' of (h4, gd) \<Rightarrow>
         case alloc h4 (plain_object []) of (h5, st) \<Rightarrow>
         case makeReactive h5 (VRef st) (UserCb state_cb) ''$state'' of (h6, sd) \<Rightarrow>
           Inr \<lparr>e_heap = h6, root_present = True, root_innerHTML = html,
                originalRootTemplate = html, currentRootData = rd,
                currentRootDataTarget = VRef t, currentRootTemplateString = VNull,
                rootRerenderScheduled = False, globalData = gd, state_store = sd,
                components = [], stateWatchers = [],
                microtasks = [], rootChanges = 0, renders = [], console = []\<rparr>))"

definition scheduleRootReRender :: "engine \<Rightarrow> engine" where
  "scheduleRootReRender e =
     (if rootRerenderScheduled e then e
      else e\<lparr>rootRerenderScheduled := True, microtasks := microtasks e @ [RootRerenderThen]\<rparr>)"

definition rootDataUpdateCallback :: "engine \<Rightarrow> engine" where
  "rootDataUpdateCallback e = scheduleRootReRender (e\<lparr>rootChanges := Suc (rootChanges e)\<rparr>)"

subsection \<open>The callbacks of the containers\<close>

text \<open>\<^verbatim>\<open>str.includes(p)\<close> and \<^verbatim>\<open>_pathMatches\<close> (lines 152 to 156).\<close>

fun str_includes :: "string \<Rightarrow> string \<Rightarrow> bool" where
  "str_includes [] p = (p = [])"
| "str_includes (c # cs) p = (starts_with p (c # cs) \<or> str_includes cs p)"

definition pathMatches :: "string \<Rightarrow> string \<Rightarrow> bool" where
  "pathMatches watchPath changedKey =
     (watchPath = changedKey \<or> starts_with (changedKey @ ''.'') watchPath \<or>
      starts_with (watchPath @ ''.'') changedKey)"

text \<open>
  \<^verbatim>\<open>Object.keys\<close> and the keys of \<^verbatim>\<open>for (const key in obj)\<close> for a plain object or
  a reactive proxy of one.
\<close>

definition own_keys :: "heap \<Rightarrow> jsval \<Rightarrow> string list" where
  "own_keys h ob =
     (case ob of
        VRef a \<Rightarrow>
          (if a < length h then
             (case okind (h ! a) of
                ReactiveProxy t cb nm \<Rightarrow> (if t < length h then map fst (oprops (h ! t)) else [])
              | _ \<Rightarrow> map fst (oprops (h ! a)))
           else [])
      | _ \<Rightarrow> [])"

text \<open>
  \<^verbatim>\<open>_updateComponentsUsingGlobalStateOrGlobalData\<close> (lines 2218 to 2262) with
  \<^verbatim>\<open>_expressionUsesGlobal\<close> (lines 2264 to 2282).  The update of a mounted component
  runs the code of the component and is not modelled.
\<close>

definition live_component :: "heap \<Rightarrow> addr \<Rightarrow> bool" where
  "live_component h c =
     (\<not> truthy (own_get h c ''_destroyed'') \<and> truthy (own_get h c ''_mounted''))"

definition expressionUsesGlobal :: "engine \<Rightarrow> string \<Rightarrow> bool" where
  "expressionUsesGlobal e template =
     (str_includes template ''$state'' \<or> str_includes template ''globalData'' \<or>
      (\<exists>key \<in> set (own_keys (e_heap e) (globalData e)). str_includes template key))"

definition updateComponentsUsingGlobalStateOrGlobalData :: "engine \<Rightarrow> engine \<times> (jserr + unit)" where
  "updateComponentsUsingGlobalStateOrGlobalData e =
     (if \<exists>c \<in> set (components e). live_component (e_heap e) c then (e, Inl NotModelled)
      else if root_present e \<and> truthy (currentRootTemplateString e) then
        (case currentRootTemplateString e of
           VStr template \<Rightarrow>
             (if str_includes template ''$state'' \<or> str_includes template ''globalData'' \<or>
                 expressionUsesGlobal e template
              then (scheduleRootReRender e, Inr ())
              else (e, Inr ()))
         | VNum n \<Rightarrow> (e, Inl TypeError)
         | VBool b \<Rightarrow> (e, Inl TypeError)
         | _ \<Rightarrow> (e, Inl NotModelled))
      else (e, Inr ()))"

text \<open>
  The callback of \<^verbatim>\<open>$state\<close> (lines 53 to 69): a watcher whose path matches the key
  runs code of the page, which is not modelled.
\<close>

definition stateCallback :: "string \<Rightarrow> engine \<Rightarrow> engine \<times> (jserr + unit)" where
  "stateCallback key e =
     (if \<exists>w \<in> set (stateWatchers e). pathMatches w key then (e, Inl NotModelled)
      else updateComponentsUsingGlobalStateOrGlobalData e)"

text \<open>
  The callback of a fetch-state container (lines 1395 to 1405).  \<^verbatim>\<open>$update\<close> (lines
  1672 to 1683) returns at once for a destroyed component; for a live one it compiles the
  template of the component again, which is not modelled.
\<close>

definition fetchStateCallback :: "jsval \<Rightarrow> jsval \<Rightarrow> jsval \<Rightarrow> engine \<Rightarrow> engine \<times> (jserr + unit)" where
  "fetchStateCallback componentInstance targetContextObject dataContext e =
     (case componentInstance of
        VRef c \<Rightarrow>
          (if truthy (own_get (e_heap e) c ''_mounted'') then
             (if truthy (own_get (e_heap e) c ''_destroyed'') then (e, Inr ())
              else (e, Inl NotModelled))
           else if targetContextObject = currentRootData e \<or> dataContext = currentRootData e
           then (scheduleRootReRender e, Inr ())
           else (e, Inr ()))
      | _ \<Rightarrow>
          (if truthy componentInstance then (e, Inl NotModelled)
           else if targetContextObject = currentRootData e \<or> dataContext = currentRootData e
           then (scheduleRootReRender e, Inr ())
           else (e, Inr ())))"

text \<open>
  What a recorded call does.  The containers of the engine are the root data, the global
  data, \<^verbatim>\<open>$state\<close> and the fetch-state containers; any other callback belongs to a
  component and runs its code.
\<close>

definition dispatch_call :: "cbcall \<Rightarrow> engine \<Rightarrow> engine \<times> (jserr + unit)" where
  "dispatch_call c e =
     (case cb_fun c of
        UserCb n \<Rightarrow>
          (if n = root_cb then (rootDataUpdateCallback e, Inr ())
           else if n = globalData_cb then updateComponentsUsingGlobalStateOrGlobalData e
           else if n = state_cb then stateCallback (cb_key c) e
           else (e, Inl NotModelled))
      | FetchStateCb ci tc dc \<Rightarrow> fetchStateCallback ci tc dc e
      | _ \<Rightarrow> (e, Inl NotModelled))"

fun dispatch_calls :: "cbcall list \<Rightarrow> engine \<Rightarrow> engine \<times> (jserr + unit)" where
  "dispatch_calls [] e = (e, Inr ())"
| "dispatch_calls (c # cs) e =
     (case dispatch_call c e of
        (e1, Inl err) \<Rightarrow> (e1, Inl err)
      | (e1, Inr u) \<Rightarrow> dispatch_calls cs e1)"

subsection \<open>Property access of the engine\<close>

text \<open>
  The handlers call the change callback as their last step before they return, so an
  assignment is the assignment in the store followed by what the recorded call does.
\<close>

definition e_get :: "jsval \<Rightarrow> string \<Rightarrow> engine \<Rightarrow> engine \<times> (jserr + jsval)" where
  "e_get ob k e =
     (case get_prop (e_heap e) ob k of
        Inl err \<Rightarrow> (e, Inl err)
      | Inr (h, v) \<Rightarrow> (e\<lparr>e_heap := h\<rparr>, Inr v))"

definition e_has :: "jsval \<Rightarrow> string \<Rightarrow> engine \<Rightarrow> engine \<times> (jserr + bool)" where
  "e_has ob k e = (e, has_prop (e_heap e) ob k)"

definition e_set :: "jsval \<Rightarrow> string \<Rightarrow> jsval \<Rightarrow> engine \<Rightarrow> engine \<times> (jserr + unit)" where
  "e_set ob k v e =
     (case set_prop (e_heap e) [] ob k v of
        (h, calls, Some err) \<Rightarrow> (e\<lparr>e_heap := h\<rparr>, Inl err)
      | (h, calls, None) \<Rightarrow> dispatch_calls calls (e\<lparr>e_heap := h\<rparr>))"

definition e_delete :: "jsval \<Rightarrow> string \<Rightarrow> engine \<Rightarrow> engine \<times> (jserr + unit)" where
  "e_delete ob k e =
     (case delete_prop (e_heap e) [] ob k of
        (h, calls, Some err) \<Rightarrow> (e\<lparr>e_heap := h\<rparr>, Inl err)
      | (h, calls, None) \<Rightarrow> dispatch_calls calls (e\<lparr>e_heap := h\<rparr>))"

subsection \<open>Rendering the root\<close>

text \<open>
  The compilation of the template into the document (\<^verbatim>\<open>_processNode\<close> and the hooks)
  is a parameter: for a template, the data and the state in which it starts, it gives the
  reads, writes and allocations that it performs on the store, in their order, the error
  that it ends with, if any, and the content of the root element that it produces.
\<close>

datatype store_op =
    SetProp jsval string jsval
  | DeleteProp jsval string
  | GetProp jsval string
  | NewObject jsobj

record render_result =
  rr_ops :: "store_op list"
  rr_error :: "jserr option"
  rr_html :: string

type_synonym render_fn = "jsval \<Rightarrow> jsval \<Rightarrow> engine \<Rightarrow> render_result"

fun run_op :: "store_op \<Rightarrow> engine \<Rightarrow> engine \<times> (jserr + unit)" where
  "run_op (SetProp ob k v) e = e_set ob k v e"
| "run_op (DeleteProp ob k) e = e_delete ob k e"
| "run_op (GetProp ob k) e = (case e_get ob k e of (e1, Inl err) \<Rightarrow> (e1, Inl err) | (e1, Inr v) \<Rightarrow> (e1, Inr ()))"
| "run_op (NewObject ob) e = (e\<lparr>e_heap := e_heap e @ [ob]\<rparr>, Inr ())"

fun run_ops :: "store_op list \<Rightarrow> engine \<Rightarrow> engine \<times> (jserr + unit)" where
  "run_ops [] e = (e, Inr ())"
| "run_ops (m # ms) e =
     (case run_op m e of
        (e1, Inl err) \<Rightarrow> (e1, Inl err)
      | (e1, Inr u) \<Rightarrow> run_ops ms e1)"

definition reRenderRoot :: "render_fn \<Rightarrow> jsval \<Rightarrow> jsval \<Rightarrow> engine \<Rightarrow> engine \<times> (jserr + unit)" where
  "reRenderRoot process templateString dataForRootProxy e =
     (if \<not> root_present e
      then (e\<lparr>console := console e @ [''Spandrix: Root element not set. Cannot re-render root.'']\<rparr>,
            Inr ())
      else
        (let e1 = e\<lparr>renders := renders e @ [(templateString, dataForRootProxy)]\<rparr>;
             rr = process templateString dataForRootProxy e1
         in case run_ops (rr_ops rr) e1 of
              (e2, Inl err) \<Rightarrow> (e2, Inl err)
            | (e2, Inr u) \<Rightarrow>
                (case rr_error rr of
                   Some err \<Rightarrow> (e2, Inl err)
                 | None \<Rightarrow> (e2\<lparr>root_innerHTML := rr_html rr\<rparr>, Inr ()))))"

text \<open>
  One microtask, taken from the queue.  The first callback clears the flag and renders;
  if the rendering raises, the second callback is queued, which reports the error and
  clears the flag again.
\<close>

definition run_microtask :: "render_fn \<Rightarrow> microtask \<Rightarrow> engine \<Rightarrow> engine" where
  "run_microtask process t e =
     (case t of
        RootRerenderThen \<Rightarrow>
          (case reRenderRoot process (currentRootTemplateString e) (currentRootData e)
                  (e\<lparr>rootRerenderScheduled := False\<rparr>) of
             (e1, Inr u) \<Rightarrow> e1
           | (e1, Inl err) \<Rightarrow> e1\<lparr>microtasks := microtasks e1 @ [RootRerenderCatch]\<rparr>)
      | RootRerenderCatch \<Rightarrow>
          e\<lparr>console := console e @ [''Spandrix: Error in scheduled root re-render:''],
            rootRerenderScheduled := False\<rparr>)"

definition next_microtask :: "render_fn \<Rightarrow> engine \<Rightarrow> engine" where
  "next_microtask process e =
     (case microtasks e of
        [] \<Rightarrow> e
      | t # ts \<Rightarrow> run_microtask process t (e\<lparr>microtasks := ts\<rparr>))"

text \<open>
  \<^verbatim>\<open>applyData\<close> (lines 2350 to 2377).  The argument of the debug message,
  \<^verbatim>\<open>{ ...newRootData }\<close>, is evaluated whether or not the message is printed: it reads
  every own member of the new root data.
\<close>

fun read_members :: "jsval \<Rightarrow> string list \<Rightarrow> engine \<Rightarrow> engine \<times> (jserr + unit)" where
  "read_members ob [] e = (e, Inr ())"
| "read_members ob (k # ks) e =
     (case e_get ob k e of
        (e1, Inl err) \<Rightarrow> (e1, Inl err)
      | (e1, Inr v) \<Rightarrow> read_members ob ks e1)"

definition rootTemplate :: "engine \<Rightarrow> jsval \<Rightarrow> jsval" where
  "rootTemplate e templateString =
     (let tpl = (if truthy templateString then templateString
                 else if root_innerHTML e \<noteq> [] then VStr (root_innerHTML e)
                 else VStr (originalRootTemplate e))
      in if \<not> truthy tpl \<and> root_present e then VStr (originalRootTemplate e) else tpl)"

definition applyData :: "render_fn \<Rightarrow> jsval \<Rightarrow> jsval \<Rightarrow> engine \<Rightarrow> engine \<times> (jserr + unit)" where
  "applyData process userData templateString e =
     (if \<not> root_present e
      then (e\<lparr>console := console e @ [''Spandrix: Root element not set. Cannot applyData.'']\<rparr>,
            Inr ())
      else
        (case (if js_typeof userData = TObject \<and> userData \<noteq> VNull then (e_heap e, userData)
               else (case alloc (e_heap e) (plain_object []) of (h, a) \<Rightarrow> (h, VRef a))) of
           (h1, newRootData) \<Rightarrow>
             (case read_members newRootData (own_keys h1 newRootData) (e\<lparr>e_heap := h1\<rparr>) of
                (e2, Inl err) \<Rightarrow> (e2, Inl err)
              | (e2, Inr u) \<Rightarrow>
                  (case makeReactive (e_heap e2) newRootData (UserCb root_cb)
                          ''_currentRootData_userProvided'' of
                     (h3, proxy) \<Rightarrow>
                       reRenderRoot process (rootTemplate e templateString) proxy
                         (e2\<lparr>e_heap := h3, currentRootData := proxy,
                             currentRootDataTarget := newRootData,
                             currentRootTemplateString := rootTemplate e templateString\<rparr>)))))"



text \<open>The engine that the constructor builds for an empty root element.\<close>

definition demo_engine :: engine where
  "demo_engine =
     \<lparr>e_heap =
        [plain_object [],
         \<lparr>okind = ReactiveProxy 0 (UserCb root_cb) ''_currentRootData_initial'',
            ofrozen = False, oprops = []\<rparr>,
         plain_object [],
         \<lparr>okind = ReactiveProxy 2 (UserCb globalData_cb) ''globalData'',
            ofrozen = False, oprops = []\<rparr>,
         plain_object [],
         \<lparr>okind = ReactiveProxy 4 (UserCb state_cb) ''$state'', ofrozen = False, oprops = []\<rparr>],
      root_present = True, root_innerHTML = [], originalRootTemplate = [],
      currentRootData = VRef 1, currentRootDataTarget = VRef 0,
      currentRootTemplateString = VNull, rootRerenderScheduled = False,
      globalData = VRef 3, state_store = VRef 5, components = [], stateWatchers = [],
      microtasks = [], rootChanges = 0, renders = [], console = []\<rparr>"


definition writing_render :: render_fn where
  "writing_render templateString dat e =
     \<lparr>rr_ops = [SetProp dat ''fetchedData'' (VNum 1)], rr_error = None,
      rr_html = ''<p>hi</p>''\<rparr>"

definition demo_engine_after :: engine where
  "demo_engine_after =
     demo_engine
       \<lparr>e_heap :=
          [plain_object [(''a'', VNum 1), (''b'', VNum 2)],
           \<lparr>okind = ReactiveProxy 0 (UserCb root_cb) ''_currentRootData_initial'',
              ofrozen = False, oprops = []\<rparr>,
           plain_object [],
           \<lparr>okind = ReactiveProxy 2 (UserCb globalData_cb) ''globalData'',
              ofrozen = False, oprops = []\<rparr>,
           plain_object [],
           \<lparr>okind = ReactiveProxy 4 (UserCb state_cb) ''$state'', ofrozen = False,
              oprops = []\<rparr>],
        rootRerenderScheduled := True, microtasks := [RootRerenderThen], rootChanges := 2\<rparr>"

section \<open>Component instances\<close>

text \<open>
  A component instance is the object literal that \<^verbatim>\<open>_renderComponent\<close> builds (lines
  1643 to 1686); it is an ordinary object of the store with the members \<^verbatim>\<open>_destroyed\<close>,
  \<^verbatim>\<open>$el\<close>, \<^verbatim>\<open>$props\<close>, \<^verbatim>\<open>_componentData\<close>, \<^verbatim>\<open>_parentLoopScope\<close> and so on,
  and so is the component definition with its members \<^verbatim>\<open>data\<close> and \<^verbatim>\<open>_name\<close>.
  Events that reach \<^verbatim>\<open>dispatchEvent\<close> of a host element are recorded.
\<close>

datatype event_detail = DetailValue jsval | DetailArray "jsval list"

record custom_event =
  ev_type :: string
  ev_detail :: event_detail
  ev_bubbles :: bool
  ev_composed :: bool

text \<open>\<^verbatim>\<open>$emit\<close> (lines 1663 to 1671).\<close>

definition emit ::
  "heap \<Rightarrow> (addr \<times> custom_event) list \<Rightarrow> addr \<Rightarrow> string \<Rightarrow> jsval list
   \<Rightarrow> jserr + (addr \<times> custom_event) list"
where
  "emit h dispatched componentInstance event detail =
     (if truthy (own_get h componentInstance ''_destroyed'') then Inr dispatched
      else
        (let customEvent =
               \<lparr>ev_type = event,
                ev_detail = (if length detail = 1 then DetailValue (hd detail)
                             else DetailArray detail),
                ev_bubbles = True, ev_composed = True\<rparr>
         in case own_get h componentInstance ''$el'' of
              VRef el \<Rightarrow>
                (if kind_of h (VRef el) = Some NodeObj
                 then Inr (dispatched @ [(el, customEvent)])
                 else Inl TypeError)
            | _ \<Rightarrow> Inl TypeError))"

text \<open>
  \<^verbatim>\<open>_destroyComponent\<close> (lines 2079 to 2133), as far as it writes members of the
  instance and of its host element; the hooks, the listeners, the attribute and the
  content of the host element are not modelled.
\<close>

definition propsToClean :: "string list" where
  "propsToClean =
     [''_spxIfPlaceholderNode'', ''_spxIfOriginalTemplateNode'', ''_spxIfWatchersAttached'',
      ''_spandrixComponent'', ''_spxRepeatAnchor'', ''_spx_event_listeners'',
      ''_spx_data_model_handler'', ''_spx_data_model_event_type'', ''_spx_static_class'',
      ''_spxLastFetchId'', ''_spxLastFetchCompletedSuccessfully'', ''_spxProcessedSignature'',
      ''_spx_node_is_fetching_this_request_id'']"

definition nullifyProps :: "string list" where
  "nullifyProps =
     [''$el'', ''$props'', ''_componentData'', ''_watchers'', ''_computedWatchers'',
      ''_computedValuesCache'', ''$refs'', ''$slots'', ''_templateContext'',
      ''_parentDataContext'', ''_parentComponentInstance'', ''_parentLoopScope'']"

definition destroyComponent :: "heap \<Rightarrow> jsval \<Rightarrow> heap" where
  "destroyComponent h componentInstance =
     (case componentInstance of
        VRef c \<Rightarrow>
          (if truthy (own_get h c ''_destroyed'') then h
           else
             (let h1 = store_own h c ''_destroyed'' (VBool True);
                  h2 = (case own_get h1 c ''$el'' of
                          VRef el \<Rightarrow> fold (\<lambda>prop hh. remove_own hh el prop) propsToClean h1
                        | _ \<Rightarrow> h1)
              in fold (\<lambda>prop hh. store_own hh c prop VNull) nullifyProps h2))
      | _ \<Rightarrow> h)"

text \<open>A mounted component with its host element.\<close>

definition mounted_heap :: heap where
  "mounted_heap =
     [\<lparr>okind = NodeObj, ofrozen = False, oprops = [(''_spandrixComponent'', VRef 1)]\<rparr>,
      plain_object [(''_destroyed'', VBool False), (''$el'', VRef 0)]]"

text \<open>
  The \<^verbatim>\<open>set\<close> trap of the template context (lines 1808 to 1839) for a string key.
  \<open>target\<close> is the component instance, \<open>componentDef\<close> the definition the trap closes
  over, \<open>engineState\<close> is \<^verbatim>\<open>target.$engine.$state\<close>.  The trap returns the store, the
  recorded calls, the console and its result.
\<close>

definition templateContext_set ::
  "jsval \<Rightarrow> addr \<Rightarrow> heap \<Rightarrow> cbcall list \<Rightarrow> string list \<Rightarrow> addr \<Rightarrow> string \<Rightarrow> jsval
   \<Rightarrow> heap \<times> cbcall list \<times> string list \<times> (jserr + bool)"
where
  "templateContext_set engineState componentDef h calls cons target key v =
     (let componentData = own_get h target ''_componentData'';
          props = own_get h target ''$props'';
          parentLoopScope = own_get h target ''_parentLoopScope''
      in
      case (if truthy componentData
            then bind_err (has_prop h componentData key)
                   (\<lambda>b. Inr (b \<or> js_typeof (own_get h componentDef ''data'') = TFunction))
            else Inr False) of
        Inl e \<Rightarrow> (h, calls, cons, Inl e)
      | Inr True \<Rightarrow>
          (case set_prop h calls componentData key v of
             (h', calls', Some e) \<Rightarrow> (h', calls', cons, Inl e)
           | (h', calls', None) \<Rightarrow> (h', calls', cons, Inr True))
      | Inr False \<Rightarrow>
          (case (if truthy props then has_prop h props key else Inr False) of
             Inl e \<Rightarrow> (h, calls, cons, Inl e)
           | Inr True \<Rightarrow>
               (h, calls,
                cons @ [''Spandrix: Cannot set prop \"'' @ key @ ''\" on <'' @
                        (case own_get h componentDef ''_name'' of
                           VStr nm \<Rightarrow> nm | _ \<Rightarrow> ''undefined'') @
                        ''>. Props are one-way.''],
                Inr False)
           | Inr False \<Rightarrow>
               (case (if truthy parentLoopScope
                      then bind_err (has_prop h parentLoopScope key) (\<lambda>b.
                             if b then
                               bind_err (get_prop h parentLoopScope key) (\<lambda>r.
                                 if js_typeof (snd r) = TObject
                                 then bind_err (get_prop (fst r) parentLoopScope key)
                                        (\<lambda>r2. Inr (fst r2, snd r2 \<noteq> VNull))
                                 else Inr (fst r, False))
                             else Inr (h, False))
                      else Inr (h, False)) of
                  Inl e \<Rightarrow> (h, calls, cons, Inl e)
                | Inr (h3, loopVar) \<Rightarrow>
                    if loopVar then
                      (case set_prop h3 calls parentLoopScope key v of
                         (h', calls', Some e) \<Rightarrow> (h', calls', cons, Inl e)
                       | (h', calls', None) \<Rightarrow> (h', calls', cons, Inr True))
                    else
                      (case (if truthy engineState then has_prop h3 engineState key
                             else Inr False) of
                         Inl e \<Rightarrow> (h3, calls, cons, Inl e)
                       | Inr True \<Rightarrow>
                           (case set_prop h3 calls engineState key v of
                              (h', calls', Some e) \<Rightarrow> (h', calls', cons, Inl e)
                            | (h', calls', None) \<Rightarrow> (h', calls', cons, Inr True))
                       | Inr False \<Rightarrow>
                           (case set_prop h3 calls (VRef target) key v of
                              (h', calls', Some e) \<Rightarrow> (h', calls', cons, Inl e)
                            | (h', calls', None) \<Rightarrow> (h', calls', cons, Inr True))))))"

text \<open>
  A component \<^verbatim>\<open><user-card>\<close> with the prop \<^verbatim>\<open>title\<close>, an empty data container and
  a definition whose member \<^verbatim>\<open>data\<close> is the argument.
\<close>

definition card_heap :: "jsval \<Rightarrow> heap" where
  "card_heap dataMember =
     [plain_object [(''_name'', VStr ''user-card''), (''data'', dataMember)],
      plain_object [],
      \<lparr>okind = ReactiveProxy 1 (UserCb 7) ''<user-card>._componentData'',
         ofrozen = False, oprops = []\<rparr>,
      plain_object [(''title'', VStr ''a'')],
      \<lparr>okind = ReactiveProxy 3 (UserCb 8) ''<user-card>.$props'', ofrozen = False, oprops = []\<rparr>,
      plain_object [(''_componentData'', VRef 2), (''$props'', VRef 4),
                    (''_parentLoopScope'', VRef 6)],
      plain_object []]"

section \<open>The expression evaluator\<close>

text \<open>
  \<^verbatim>\<open>_isValidExpression\<close> (lines 314 to 325) tests the expression against six regular
  expressions with the flag \<^verbatim>\<open>i\<close>.  Each is a literal word, four of them followed by
  \<^verbatim>\<open>\s*\<close> and one more character; \<open>Word\<close> and \<open>WordThen\<close> are these two shapes.
  Without the flag \<^verbatim>\<open>u\<close> a character of the input matches an ASCII letter of the
  pattern exactly when it is that letter in either case.
\<close>

datatype pattern = Word string | WordThen string char

definition canon :: "char \<Rightarrow> char" where
  "canon c =
     (if 97 \<le> (of_char c :: nat) \<and> (of_char c :: nat) \<le> 122
      then char_of ((of_char c :: nat) - 32) else c)"

fun ci_prefix :: "string \<Rightarrow> string \<Rightarrow> string option" where
  "ci_prefix [] s = Some s"
| "ci_prefix (p # ps) [] = None"
| "ci_prefix (p # ps) (c # cs) = (if canon p = canon c then ci_prefix ps cs else None)"

fun match_here :: "pattern \<Rightarrow> string \<Rightarrow> bool" where
  "match_here (Word w) s = (ci_prefix w s \<noteq> None)"
| "match_here (WordThen w c) s =
     (case ci_prefix w s of
        None \<Rightarrow> False
      | Some rest \<Rightarrow>
          (case dropWhile js_space rest of [] \<Rightarrow> False | x # xs \<Rightarrow> canon x = canon c))"

fun regex_test :: "pattern \<Rightarrow> string \<Rightarrow> bool" where
  "regex_test p [] = match_here p []"
| "regex_test p (c # cs) = (match_here p (c # cs) \<or> regex_test p cs)"

definition dangerousPatterns :: "pattern list" where
  "dangerousPatterns =
     [WordThen ''Function'' CHR ''('',
      WordThen ''eval'' CHR ''('',
      WordThen ''setTimeout'' CHR ''('',
      WordThen ''setInterval'' CHR ''('',
      Word ''__proto__'',
      WordThen ''constructor'' CHR ''['']"

definition isValidExpression :: "string \<Rightarrow> bool" where
  "isValidExpression expression = (\<not> list_ex (\<lambda>p. regex_test p expression) dangerousPatterns)"

text \<open>
  \<^verbatim>\<open>_buildScopedEvaluator\<close> (lines 448 to 549).  The bound names are collected in the
  order of the source, each with the place its value is read from; a name is admitted
  once, and only if it matches \<^verbatim>\<open>/^[a-zA-Z_$][0-9a-zA-Z_$]*$/\<close>.  The compilation by
  \<^verbatim>\<open>new Function\<close> and the call of the compiled function are parameters: \<open>parses\<close>
  says whether the expression compiles with these parameter names, \<open>invoke\<close> is the
  result of the call or the error it raises.
\<close>

datatype provider =
    FromAdditionalScope
  | FromTemplateContext
  | FromBaseData
  | FromGlobalData
  | TheState
  | TheGlobalData

datatype evaluator = NoOp | Compiled "(string \<times> provider) list" string

definition ident_start :: "char \<Rightarrow> bool" where
  "ident_start c =
     ((97 \<le> (of_char c :: nat) \<and> (of_char c :: nat) \<le> 122) \<or>
      (65 \<le> (of_char c :: nat) \<and> (of_char c :: nat) \<le> 90) \<or>
      c = CHR ''_'' \<or> c = CHR ''$'')"

definition ident_char :: "char \<Rightarrow> bool" where
  "ident_char c = (ident_start c \<or> (48 \<le> (of_char c :: nat) \<and> (of_char c :: nat) \<le> 57))"

definition is_identifier :: "string \<Rightarrow> bool" where
  "is_identifier s = (case s of [] \<Rightarrow> False | c # cs \<Rightarrow> ident_start c \<and> list_all ident_char cs)"

definition addKeyFromProvider ::
  "(string \<times> provider) list \<Rightarrow> provider \<Rightarrow> string \<Rightarrow> (string \<times> provider) list"
where
  "addKeyFromProvider ctx valueProvider keyName =
     (if keyName \<notin> fst ` set ctx \<and> is_identifier keyName
      then ctx @ [(keyName, valueProvider)] else ctx)"

definition componentKeys :: "heap \<Rightarrow> jsval \<Rightarrow> string list" where
  "componentKeys h componentInstance =
     (case componentInstance of
        VRef c \<Rightarrow>
          (if truthy (own_get h c ''_templateContext'') then
             (case own_get h c ''_componentDef'' of
                VRef d \<Rightarrow>
                  (if truthy (own_get h d ''_propsDef'')
                   then own_keys h (own_get h d ''_propsDef'') else []) @
                  (if truthy (own_get h c ''_componentData'')
                   then own_keys h (own_get h c ''_componentData'') else []) @
                  (if truthy (own_get h d ''computed'')
                   then own_keys h (own_get h d ''computed'') else []) @
                  (if truthy (own_get h d ''methods'')
                   then own_keys h (own_get h d ''methods'') else [])
              | _ \<Rightarrow> [])
           else [])
      | _ \<Rightarrow> [])"

definition finalKeys ::
  "heap \<Rightarrow> jsval \<Rightarrow> jsval \<Rightarrow> jsval \<Rightarrow> jsval \<Rightarrow> (string \<times> provider) list"
where
  "finalKeys h globalDataObj baseDataContext componentInstance additionalScope =
     (let k1 = foldl (\<lambda>ctx. addKeyFromProvider ctx FromAdditionalScope) []
                 (own_keys h additionalScope);
          k2 = foldl (\<lambda>ctx. addKeyFromProvider ctx FromTemplateContext) k1
                 (componentKeys h componentInstance);
          k3 = foldl (\<lambda>ctx. addKeyFromProvider ctx FromBaseData) k2
                 (filter (\<lambda>k. k \<noteq> ''_isReactiveProxy'') (own_keys h baseDataContext));
          k4 = foldl (\<lambda>ctx. addKeyFromProvider ctx FromGlobalData) k3
                 (own_keys h globalDataObj);
          k5 = addKeyFromProvider k4 TheState ''$state''
      in addKeyFromProvider k5 TheGlobalData ''globalData'')"

definition buildScopedEvaluator ::
  "(string list \<Rightarrow> string \<Rightarrow> bool) \<Rightarrow> heap \<Rightarrow> jsval \<Rightarrow> string list \<Rightarrow>
   jsval \<Rightarrow> jsval \<Rightarrow> jsval \<Rightarrow> jsval \<Rightarrow> evaluator \<times> string list"
where
  "buildScopedEvaluator parses h globalDataObj cons expression baseDataContext componentInstance
       additionalScope =
     (case expression of
        VStr ex \<Rightarrow>
          (if ex = [] \<or> js_trim ex = [] then (NoOp, cons)
           else if \<not> isValidExpression ex
           then (NoOp, cons @ [''Spandrix: Blocked unsafe expression: \"'' @ ex @ ''\"''])
           else
             (let keys = finalKeys h globalDataObj baseDataContext componentInstance
                           additionalScope
              in if parses (map fst keys) ex then (Compiled keys ex, cons)
                 else (NoOp, cons @ [''Spandrix: Compile error in \"'' @ ex @ ''\":''])))
      | _ \<Rightarrow> (NoOp, cons))"

text \<open>
  Calling the evaluator: the no-op returns \<^verbatim>\<open>undefined\<close>; a compiled evaluator
  returns what the function returns, and when the call raises it returns
  \<^verbatim>\<open>undefined\<close> unless \<^verbatim>\<open>strictExpressions\<close> is set.
\<close>

fun run_evaluator ::
  "bool \<Rightarrow> ((string \<times> provider) list \<Rightarrow> string \<Rightarrow> jserr + jsval) \<Rightarrow> evaluator \<Rightarrow> jserr + jsval"
where
  "run_evaluator strict invoke NoOp = Inr VUndef"
| "run_evaluator strict invoke (Compiled keys ex) =
     (case invoke keys ex of
        Inl e \<Rightarrow> (if strict then Inl e else Inr VUndef)
      | Inr v \<Rightarrow> Inr v)"

text \<open>The literal word a pattern starts with.\<close>

definition word_of :: "pattern \<Rightarrow> string" where
  "word_of p = (case p of Word w \<Rightarrow> w | WordThen w c \<Rightarrow> w)"

section \<open>Interpolation\<close>

text \<open>
  \<^verbatim>\<open>_interpolateString\<close> (lines 551 to 602) and \<^verbatim>\<open>_sanitizeHTML\<close> (lines 307 to
  312).  The options are the three the function reads.  The filters, the resolution of
  filter arguments, the conversion of an object or a function to a string and the
  compiled expressions are parameters of the environment.
\<close>

record render_options =
  missingValuePlaceholder :: jsval
  allowRawHTML :: bool
  strictExpressions :: bool

type_synonym filter_fn = "jsval \<Rightarrow> jsval list \<Rightarrow> jserr + jsval"

record interp_env =
  env_options :: render_options
  env_heap :: heap
  env_globalData :: jsval
  env_parses :: "string list \<Rightarrow> string \<Rightarrow> bool"
  env_invoke :: "(string \<times> provider) list \<Rightarrow> string \<Rightarrow> jserr + jsval"
  env_filters :: "string \<Rightarrow> filter_fn option"
  env_filterArgs :: "string list \<Rightarrow> jsval list"
  env_objString :: "addr \<Rightarrow> string"
  env_funString :: "nat \<Rightarrow> string"

definition js_to_string :: "interp_env \<Rightarrow> jsval \<Rightarrow> string" where
  "js_to_string env v =
     (case v of
        VUndef \<Rightarrow> ''undefined''
      | VNull \<Rightarrow> ''null''
      | VBool b \<Rightarrow> (if b then ''true'' else ''false'')
      | VNum n \<Rightarrow> show_int n
      | VStr s \<Rightarrow> s
      | VFun f \<Rightarrow> env_funString env f
      | VBuiltin s \<Rightarrow>
          ''function '' @ last (split_on CHR ''.'' s) @ ''() { [native code] }''
      | VRef a \<Rightarrow> env_objString env a)"

text \<open>
  Assigning \<^verbatim>\<open>textContent\<close> and reading \<^verbatim>\<open>innerHTML\<close> serialises a text node:
  the ampersand, the no-break space and the two angle brackets are replaced.
\<close>

definition html_escape_char :: "char \<Rightarrow> string" where
  "html_escape_char c =
     (if c = CHR ''&'' then ''&amp;''
      else if c = CHR 0xA0 then ''&nbsp;''
      else if c = CHR ''<'' then ''&lt;''
      else if c = CHR ''>'' then ''&gt;''
      else [c])"

definition sanitizeHTML :: "interp_env \<Rightarrow> jsval \<Rightarrow> string" where
  "sanitizeHTML env input =
     (case input of
        VStr s \<Rightarrow> concat (map html_escape_char s)
      | VUndef \<Rightarrow> []
      | VNull \<Rightarrow> []
      | _ \<Rightarrow> js_to_string env input)"

text \<open>
  The regular expression \<^verbatim>\<open>/{{{([\s\S]*?)}}}|{{([\s\S]*?)}}/g\<close>.  At a position of the
  template the first alternative is tried before the second; a lazy group ends at the
  first closing mark.  \<open>find_close cl s\<close> splits \<open>s\<close> at the first occurrence of \<open>cl\<close>;
  \<open>match_at s\<close> is the match at the start of \<open>s\<close>: the two groups and the rest of the
  template.
\<close>

fun find_close :: "string \<Rightarrow> string \<Rightarrow> (string \<times> string) option" where
  "find_close cl [] = (if cl = [] then Some ([], []) else None)"
| "find_close cl (c # cs) =
     (if starts_with cl (c # cs) then Some ([], drop (length cl) (c # cs))
      else (case find_close cl cs of None \<Rightarrow> None | Some (b, a) \<Rightarrow> Some (c # b, a)))"

definition match_at :: "string \<Rightarrow> (string option \<times> string option \<times> string) option" where
  "match_at s =
     (case (if starts_with ''{{{'' s then find_close ''}}}'' (drop 3 s) else None) of
        Some (rawExpr, rest) \<Rightarrow> Some (Some rawExpr, None, rest)
      | None \<Rightarrow>
          (case (if starts_with ''{{'' s then find_close ''}}'' (drop 2 s) else None) of
             Some (escapedExpr, rest) \<Rightarrow> Some (None, Some escapedExpr, rest)
           | None \<Rightarrow> None))"

fun apply_filters :: "interp_env \<Rightarrow> string list \<Rightarrow> jsval \<Rightarrow> string list \<Rightarrow> jsval \<times> string list" where
  "apply_filters env [] v cons = (v, cons)"
| "apply_filters env (filterCallStr # rest) v cons =
     (case map js_trim (split_on CHR '':'' filterCallStr) of
        [] \<Rightarrow> apply_filters env rest v cons
      | filterName # argStrs \<Rightarrow>
          (case env_filters env filterName of
             Some f \<Rightarrow>
               (case f v (env_filterArgs env argStrs) of
                  Inr v' \<Rightarrow> apply_filters env rest v' cons
                | Inl e \<Rightarrow>
                    apply_filters env rest v
                      (cons @ [''Spandrix: Error in filter \"'' @ filterName @ ''\":'']))
           | None \<Rightarrow>
               apply_filters env rest v
                 (cons @ [''Spandrix: Filter \"'' @ filterName @ ''\" not found.''])))"

text \<open>
  The replacement function, called with the two groups of a match (\<open>None\<close> for a
  group that took no part in it).
\<close>

definition render_match ::
  "interp_env \<Rightarrow> jsval \<Rightarrow> jsval \<Rightarrow> jsval \<Rightarrow> string list \<Rightarrow> string option \<Rightarrow> string option
   \<Rightarrow> jserr + string \<times> string list"
where
  "render_match env dataContext componentInstance loopScope cons rawExpr escapedExpr =
     (let isRaw = (case rawExpr of None \<Rightarrow> False | Some r \<Rightarrow> r \<noteq> []) in
      case (if isRaw then rawExpr else escapedExpr) of
        None \<Rightarrow> Inl TypeError
      | Some body \<Rightarrow>
          (case map js_trim (split_on CHR ''|'' (js_trim body)) of
             [] \<Rightarrow> Inl TypeError
           | expression # filterCalls \<Rightarrow>
               (case buildScopedEvaluator (env_parses env) (env_heap env) (env_globalData env)
                       cons (VStr expression) dataContext componentInstance loopScope of
                  (ev, cons1) \<Rightarrow>
                    (case run_evaluator (strictExpressions (env_options env)) (env_invoke env) ev of
                       Inl e \<Rightarrow> Inl e
                     | Inr v0 \<Rightarrow>
                         (case apply_filters env filterCalls v0 cons1 of
                            (v, cons2) \<Rightarrow>
                              if isRaw then
                                (if \<not> allowRawHTML (env_options env)
                                 then Inr (js_to_string env
                                             (missingValuePlaceholder (env_options env)),
                                           cons2 @ [''Spandrix: Raw HTML disabled for {{{ '' @
                                                    expression @ '' }}}''])
                                 else Inr (js_to_string env
                                             (if v = VUndef \<or> v = VNull then VStr [] else v),
                                           cons2))
                              else
                                (case (if v = VUndef \<or> v = VNull
                                       then Inr (missingValuePlaceholder (env_options env))
                                       else if js_typeof v = TObject
                                       then (case json_stringify (env_heap env) v of
                                               Inl e \<Rightarrow> Inl e
                                             | Inr None \<Rightarrow> Inr VUndef
                                             | Inr (Some js) \<Rightarrow> Inr (VStr js))
                                       else Inr (VStr (js_to_string env v))) of
                                   Inl e \<Rightarrow> Inl e
                                 | Inr stringValue \<Rightarrow>
                                     Inr (sanitizeHTML env stringValue, cons2)))))))"

function interpolate_from ::
  "interp_env \<Rightarrow> jsval \<Rightarrow> jsval \<Rightarrow> jsval \<Rightarrow> string \<Rightarrow> string list \<Rightarrow> jserr + string \<times> string list"
where
  "interpolate_from env dataContext componentInstance loopScope [] cons = Inr ([], cons)"
| "interpolate_from env dataContext componentInstance loopScope (c # cs) cons =
     (case match_at (c # cs) of
        Some (rawExpr, escapedExpr, rest) \<Rightarrow>
          (case render_match env dataContext componentInstance loopScope cons rawExpr escapedExpr of
             Inl e \<Rightarrow> Inl e
           | Inr (out, cons1) \<Rightarrow>
               (case interpolate_from env dataContext componentInstance loopScope rest cons1 of
                  Inl e \<Rightarrow> Inl e
                | Inr (out2, cons2) \<Rightarrow> Inr (out @ out2, cons2)))
      | None \<Rightarrow>
          (case interpolate_from env dataContext componentInstance loopScope cs cons of
             Inl e \<Rightarrow> Inl e
           | Inr (out, cons1) \<Rightarrow> Inr (c # out, cons1)))"
  by pat_completeness auto

termination
proof -
  have fc: "length a \<le> length s" if "find_close cl s = Some (b, a)" for cl s b a
    using that
  proof (induction s arbitrary: b)
    case Nil
    then show ?case by (simp split: if_splits)
  next
    case (Cons c cs)
    then show ?case
      by (auto split: if_splits option.splits)
  qed
  have ma: "length rest < length s" if "match_at s = Some (r, e, rest)" for s r e rest
  proof -
    from that consider
        x where "starts_with ''{{{'' s" "find_close ''}}}'' (drop 3 s) = Some (x, rest)"
      | x where "starts_with ''{{'' s" "find_close ''}}'' (drop 2 s) = Some (x, rest)"
      by (auto simp: match_at_def split: if_splits option.splits)
    then show ?thesis
    proof cases
      case 1
      have "length rest \<le> length (drop 3 s)"
        using fc [OF 1(2)] .
      moreover have "3 \<le> length s"
      proof -
        have t: "take (length ''{{{'') s = ''{{{''"
          using 1(1) unfolding starts_with_def .
        have "length (take (length ''{{{'') s) = length ''{{{''"
          by (simp only: t)
        then show ?thesis by simp
      qed
      ultimately show ?thesis by simp
    next
      case 2
      have "length rest \<le> length (drop 2 s)"
        using fc [OF 2(2)] .
      moreover have "2 \<le> length s"
      proof -
        have t: "take (length ''{{'') s = ''{{''"
          using 2(1) unfolding starts_with_def .
        have "length (take (length ''{{'') s) = length ''{{''"
          by (simp only: t)
        then show ?thesis by simp
      qed
      ultimately show ?thesis by simp
    qed
  qed
  show ?thesis
    by (relation "measure (\<lambda>(env, d, ci, ls, s, cons). length s)") (auto dest: ma)
qed

definition interpolateString ::
  "interp_env \<Rightarrow> string \<Rightarrow> jsval \<Rightarrow> jsval \<Rightarrow> jsval \<Rightarrow> string list \<Rightarrow> jserr + string \<times> string list"
where
  "interpolateString env templateStr dataContext componentInstance loopScope cons =
     interpolate_from env dataContext componentInstance loopScope templateStr cons"

text \<open>An environment for the examples.\<close>

definition demo_env :: "bool \<Rightarrow> interp_env" where
  "demo_env raw =
     \<lparr>env_options = \<lparr>missingValuePlaceholder = VStr ''-'', allowRawHTML = raw,
                      strictExpressions = False\<rparr>,
      env_heap = [plain_object [(''msg'', VStr ''<b>x</b>''), (''obj'', VRef 1)], plain_object [(''n'', VNum 1)]],
      env_globalData = VNull,
      env_parses = (\<lambda>ks e. True),
      env_invoke = (\<lambda>ks e. if e = ''msg'' then Inr (VStr ''<b>x</b>'')
                              else if e = ''obj'' then Inr (VRef 1)
                              else if e = ''nothing'' then Inr VUndef
                              else Inl TypeError),
      env_filters = (\<lambda>n. None),
      env_filterArgs = (\<lambda>a. []),
      env_objString = (\<lambda>a. ''[object Object]''),
      env_funString = (\<lambda>f. ''function () {}'')\<rparr>"


section \<open>The fetch directive\<close>

text \<open>
  \<^verbatim>\<open>_processFetchDirective\<close> (lines 1347 to 1480): the fetch-state container that the
  directive creates (lines 1386 to 1407), and the directive from the point where the
  container is known (lines 1414 to 1479): the two guards, the start of a request, and
  the three handlers of the promise \<^verbatim>\<open>this.request(...).then(...).catch(...).finally(...)\<close>.
  The container is a reactive proxy whose change callback is the closure of lines 1395
  to 1405; the node is an object of the store with the private member
  \<^verbatim>\<open>_spx_node_is_fetching_this_request_id\<close>; the class lists of the nodes are kept
  beside the store.  \<open>fw_requests\<close> records the requests that have been sent.

  Each handler runs as a microtask of its own, so other microtasks, such as a scheduled
  render of the root, may run between two handlers of one request.  A handler is a list
  of statements; a statement that raises ends the handler, with the state as it is then.
\<close>

record fetch_request =
  rq_id :: string
  rq_url :: string
  rq_node :: addr
  rq_container :: jsval
  rq_loadingClass :: "string option"
  rq_errorClass :: "string option"

record fetch_world =
  fw_engine :: engine
  fw_classList :: "(addr \<times> string list) list"
  fw_requests :: "fetch_request list"

text \<open>
  What a request is rejected with: an object with its member \<^verbatim>\<open>message\<close> (a string,
  or none) and the string \<^verbatim>\<open>String(error)\<close>, or a primitive value.
\<close>

datatype rejection = RejectObject "string option" string | RejectValue jsval

definition marker_key :: string where
  "marker_key = ''_spx_node_is_fetching_this_request_id''"

text \<open>\<^verbatim>\<open>JSON.stringify({ url: fetchUrl, method: fetchMethod })\<close>\<close>

definition fetchRequestId :: "string \<Rightarrow> string \<Rightarrow> string" where
  "fetchRequestId fetchUrl fetchMethod =
     ''{\"url\":'' @ json_quote fetchUrl @ '',\"method\":'' @ json_quote fetchMethod @ ''}''"

text \<open>
  The container of lines 1386 to 1407: \<^verbatim>\<open>_makeReactive\<close> of a new object with the six
  members, with the closure over \<^verbatim>\<open>componentInstance\<close>, \<^verbatim>\<open>targetContextObject\<close> and
  \<^verbatim>\<open>dataContext\<close> as its change callback.
\<close>

definition newFetchContainer :: "heap \<Rightarrow> jsval \<Rightarrow> jsval \<Rightarrow> jsval \<Rightarrow> string \<Rightarrow> heap \<times> jsval" where
  "newFetchContainer h componentInstance targetContextObject dataContext effectiveFetchAsKey =
     (case alloc h (plain_object
              [(''$loading'', VBool False), (''$error'', VNull), (''data'', VNull),
               (''_spxLastFetchId'', VNull),
               (''_spxLastFetchCompletedSuccessfully'', VBool False),
               (''_spxIsCurrentlyFetching'', VBool False)]) of
        (h1, a) \<Rightarrow>
          makeReactive h1 (VRef a)
            (FetchStateCb componentInstance targetContextObject dataContext)
            (''fetchState_'' @ effectiveFetchAsKey))"

definition w_get :: "jsval \<Rightarrow> string \<Rightarrow> fetch_world \<Rightarrow> fetch_world \<times> (jserr + jsval)" where
  "w_get ob k w = (case e_get ob k (fw_engine w) of (e1, r) \<Rightarrow> (w\<lparr>fw_engine := e1\<rparr>, r))"

definition w_set :: "jsval \<Rightarrow> string \<Rightarrow> jsval \<Rightarrow> fetch_world \<Rightarrow> fetch_world \<times> (jserr + unit)" where
  "w_set ob k v w = (case e_set ob k v (fw_engine w) of (e1, r) \<Rightarrow> (w\<lparr>fw_engine := e1\<rparr>, r))"

definition w_delete :: "jsval \<Rightarrow> string \<Rightarrow> fetch_world \<Rightarrow> fetch_world \<times> (jserr + unit)" where
  "w_delete ob k w = (case e_delete ob k (fw_engine w) of (e1, r) \<Rightarrow> (w\<lparr>fw_engine := e1\<rparr>, r))"

definition w_log :: "string \<Rightarrow> fetch_world \<Rightarrow> fetch_world \<times> (jserr + unit)" where
  "w_log s w = (w\<lparr>fw_engine := (fw_engine w)\<lparr>console := console (fw_engine w) @ [s]\<rparr>\<rparr>, Inr ())"

text \<open>
  The marker of a node is read as its own member: no prototype of a node has a member
  of this name.
\<close>

definition node_marker :: "fetch_world \<Rightarrow> addr \<Rightarrow> jsval" where
  "node_marker w node = own_get (e_heap (fw_engine w)) node marker_key"

text \<open>
  \<^verbatim>\<open>if (cls && node.classList) node.classList.add(cls)\<close> and the same with
  \<^verbatim>\<open>remove\<close>: nothing happens for a missing or empty attribute and for a node without
  a class list.
\<close>

definition class_add :: "addr \<Rightarrow> string option \<Rightarrow> fetch_world \<Rightarrow> fetch_world" where
  "class_add node cls w =
     (case cls of
        None \<Rightarrow> w
      | Some cl \<Rightarrow>
          (if cl = [] then w
           else (case map_of (fw_classList w) node of
                   None \<Rightarrow> w
                 | Some have \<Rightarrow>
                     w\<lparr>fw_classList :=
                         AList.update node (if cl \<in> set have then have else have @ [cl])
                           (fw_classList w)\<rparr>)))"

definition class_remove :: "addr \<Rightarrow> string option \<Rightarrow> fetch_world \<Rightarrow> fetch_world" where
  "class_remove node cls w =
     (case cls of
        None \<Rightarrow> w
      | Some cl \<Rightarrow>
          (if cl = [] then w
           else (case map_of (fw_classList w) node of
                   None \<Rightarrow> w
                 | Some have \<Rightarrow>
                     w\<lparr>fw_classList := AList.update node (removeAll cl have) (fw_classList w)\<rparr>)))"

text \<open>The guards and the start of a request (lines 1414 to 1454).\<close>

definition startFetch ::
  "fetch_world \<Rightarrow> addr \<Rightarrow> jsval \<Rightarrow> string \<Rightarrow> string \<Rightarrow> string option \<Rightarrow> string option \<Rightarrow> bool
   \<Rightarrow> fetch_world \<times> (jserr + unit)"
where
  "startFetch w node c fetchUrl fetchMethod fetchLoadingClass fetchErrorClass explicitNoCache =
     (let rid = fetchRequestId fetchUrl fetchMethod in
      ebind (w_get c ''_spxLastFetchId'' w) (\<lambda>lastId w1.
      ebind (if lastId = VStr rid
             then w_get c ''_spxLastFetchCompletedSuccessfully'' w1
             else (w1, Inr (VBool False))) (\<lambda>completed w2.
      if lastId = VStr rid \<and> truthy completed \<and> \<not> explicitNoCache then
        ebind (w_get c ''$loading'' w2) (\<lambda>loading w3.
        ebind (if truthy loading then w_set c ''$loading'' (VBool False) w3
               else (w3, Inr ())) (\<lambda>u w4.
        if node_marker w4 node = VStr rid
        then w_delete (VRef node) marker_key w4 else (w4, Inr ())))
      else
        ebind (if node_marker w2 node = VStr rid then (w2, Inr True)
               else ebind (w_get c ''_spxIsCurrentlyFetching'' w2) (\<lambda>fetching w3.
                    if fetching = VBool True
                    then ebind (w_get c ''_spxLastFetchId'' w3) (\<lambda>lastId2 w4.
                           (w4, Inr (lastId2 = VStr rid)))
                    else (w3, Inr False))) (\<lambda>already w5.
        if already then
          ebind (w_get c ''$loading'' w5) (\<lambda>loading w6.
          ebind (if \<not> truthy loading then w_set c ''$loading'' (VBool True) w6
                 else (w6, Inr ())) (\<lambda>u w7.
          (class_add node fetchLoadingClass w7, Inr ())))
        else
          ebind (w_set (VRef node) marker_key (VStr rid) w5) (\<lambda>u w6.
          ebind (w_set c ''_spxIsCurrentlyFetching'' (VBool True) w6) (\<lambda>u w7.
          ebind (w_set c ''_spxLastFetchId'' (VStr rid) w7) (\<lambda>u w8.
          ebind (w_set c ''_spxLastFetchCompletedSuccessfully'' (VBool False) w8) (\<lambda>u w9.
          ebind (w_set c ''$loading'' (VBool True) w9) (\<lambda>u w10.
          ebind (w_set c ''$error'' VNull w10) (\<lambda>u w11.
          (let w12 = class_remove node fetchErrorClass (class_add node fetchLoadingClass w11)
           in (w12\<lparr>fw_requests := fw_requests w12 @
                     [\<lparr>rq_id = rid, rq_url = fetchUrl, rq_node = node, rq_container = c,
                       rq_loadingClass = fetchLoadingClass,
                       rq_errorClass = fetchErrorClass\<rparr>]\<rparr>, Inr ()))))))))))))"

text \<open>
  The three handlers (lines 1455 to 1479).  The first runs when the request is
  fulfilled, the second when it is rejected or the first has raised, the third in both
  cases.
\<close>

type_synonym stmt = "fetch_world \<Rightarrow> fetch_world \<times> (jserr + unit)"

fun run_stmts :: "stmt list \<Rightarrow> fetch_world \<Rightarrow> fetch_world \<times> jserr option" where
  "run_stmts [] w = (w, None)"
| "run_stmts (s # ss) w =
     (case s w of (w1, Inl e) \<Rightarrow> (w1, Some e) | (w1, Inr u) \<Rightarrow> run_stmts ss w1)"

definition fetch_then :: "fetch_request \<Rightarrow> jsval \<Rightarrow> stmt list" where
  "fetch_then rq payload =
     [w_set (rq_container rq) ''data'' payload,
      w_set (rq_container rq) ''$error'' VNull,
      w_set (rq_container rq) ''_spxLastFetchCompletedSuccessfully'' (VBool True)]"

text \<open>
  \<^verbatim>\<open>error.message || String(error)\<close>.  A member of \<^verbatim>\<open>undefined\<close> or \<^verbatim>\<open>null\<close> is a
  TypeError; a number, a string or a boolean has no member \<^verbatim>\<open>message\<close>.
\<close>

definition error_text :: "rejection \<Rightarrow> jserr + jsval" where
  "error_text r =
     (case r of
        RejectObject msg str \<Rightarrow>
          (case msg of
             Some m \<Rightarrow> (if m \<noteq> [] then Inr (VStr m) else Inr (VStr str))
           | None \<Rightarrow> Inr (VStr str))
      | RejectValue v \<Rightarrow>
          (case v of
             VUndef \<Rightarrow> Inl TypeError
           | VNull \<Rightarrow> Inl TypeError
           | VBool b \<Rightarrow> Inr (VStr (if b then ''true'' else ''false''))
           | VNum n \<Rightarrow> Inr (VStr (show_int n))
           | VStr s \<Rightarrow> Inr (VStr s)
           | _ \<Rightarrow> Inl NotModelled))"

definition fetch_catch :: "fetch_request \<Rightarrow> rejection \<Rightarrow> stmt list" where
  "fetch_catch rq err =
     [w_log (''Spandrix: data-fetch to \"'' @ rq_url rq @ ''\" failed:''),
      w_set (rq_container rq) ''data'' VNull,
      \<lambda>w. (case error_text err of
              Inl e \<Rightarrow> (w, Inl e)
            | Inr v \<Rightarrow> w_set (rq_container rq) ''$error'' v w),
      \<lambda>w. (class_add (rq_node rq) (rq_errorClass rq) w, Inr ())]"

definition fetch_finally :: "fetch_request \<Rightarrow> stmt list" where
  "fetch_finally rq =
     [\<lambda>w. if node_marker w (rq_node rq) = VStr (rq_id rq)
           then w_delete (VRef (rq_node rq)) marker_key w else (w, Inr ()),
      \<lambda>w. ebind (w_get (rq_container rq) ''_spxLastFetchId'' w) (\<lambda>lastId w1.
             if lastId = VStr (rq_id rq)
             then w_set (rq_container rq) ''_spxIsCurrentlyFetching'' (VBool False) w1
             else (w1, Inr ())),
      w_set (rq_container rq) ''$loading'' (VBool False),
      \<lambda>w. (class_remove (rq_node rq) (rq_loadingClass rq) w, Inr ())]"





text \<open>
  A page with one node and a fetch-state container for the root data, as the directive
  makes it outside a component; the request for \<^verbatim>\<open>/api/a\<close>.
\<close>

definition fetch_demo :: fetch_world where
  "fetch_demo =
     (case newFetchContainer
             (e_heap demo_engine @ [\<lparr>okind = NodeObj, ofrozen = False, oprops = []\<rparr>])
             VNull (currentRootData demo_engine) (currentRootData demo_engine)
             ''fetchedData'' of
        (h, c) \<Rightarrow>
          \<lparr>fw_engine = demo_engine\<lparr>e_heap := h\<rparr>, fw_classList = [(6, [])], fw_requests = []\<rparr>)"

definition fetch_demo_request :: fetch_request where
  "fetch_demo_request =
     \<lparr>rq_id = fetchRequestId ''/api/a'' ''GET'', rq_url = ''/api/a'', rq_node = 6,
      rq_container = VRef 8, rq_loadingClass = Some ''is-loading'',
      rq_errorClass = Some ''has-error''\<rparr>"

text \<open>The page once the request for \<^verbatim>\<open>/api/a\<close> is under way.\<close>

definition fetch_demo_pending :: fetch_world where
  "fetch_demo_pending =
     \<lparr>fw_engine =
        demo_engine
          \<lparr>e_heap := e_heap demo_engine @
             [\<lparr>okind = NodeObj, ofrozen = False,
                oprops = [(marker_key, VStr (fetchRequestId ''/api/a'' ''GET''))]\<rparr>,
              plain_object
                [(''$loading'', VBool True), (''$error'', VNull), (''data'', VNull),
                 (''_spxLastFetchId'', VStr (fetchRequestId ''/api/a'' ''GET'')),
                 (''_spxLastFetchCompletedSuccessfully'', VBool False),
                 (''_spxIsCurrentlyFetching'', VBool True)],
              \<lparr>okind = ReactiveProxy 7 (FetchStateCb VNull (VRef 1) (VRef 1))
                         ''fetchState_fetchedData'',
                 ofrozen = False, oprops = []\<rparr>],
           rootRerenderScheduled := True, microtasks := [RootRerenderThen]\<rparr>,
      fw_classList = [(6, [''is-loading''])],
      fw_requests = [fetch_demo_request]\<rparr>"

section \<open>Properties of the object store\<close>

lemma bind_err_simps [simp]:
  "bind_err (Inl e) f = Inl e"
  "bind_err (Inr x) f = f x"
  by (simp_all add: bind_err_def)

lemma ebind_simps [simp]:
  "ebind (w, Inl err) f = (w, Inl err)"
  "ebind (w, Inr x) f = f x w"
  by (simp_all add: ebind_def)

lemma map_of_insert_index:
  "map_of ps k = None \<Longrightarrow> map_of (insert_index i (k, v) ps) x = ((map_of ps)(k \<mapsto> v)) x"
  by (induction ps) (auto split: option.splits if_splits)

lemma map_of_put_member: "map_of (put_member k v ps) = (map_of ps)(k \<mapsto> v)"
proof (cases "map_of ps k")
  case None
  show ?thesis
  proof
    fix x
    show "map_of (put_member k v ps) x = ((map_of ps)(k \<mapsto> v)) x"
      using None map_of_insert_index [OF None, of _ v x]
      by (auto simp add: put_member_def map_add_def split: option.splits)
  qed
next
  case (Some x)
  then show ?thesis
    by (simp add: put_member_def update_conv')
qed

lemma length_store_own [simp]: "length (store_own h a k v) = length h"
  by (simp add: store_own_def)

lemma nth_store_own_other [simp]: "b \<noteq> a \<Longrightarrow> store_own h a k v ! b = h ! b"
  by (simp add: store_own_def)

lemma okind_store_own [simp]: "okind (store_own h a k v ! b) = okind (h ! b)"
  by (cases "b = a"; cases "a < length h") (simp_all add: store_own_def list_update_beyond)

lemma ofrozen_store_own [simp]: "ofrozen (store_own h a k v ! b) = ofrozen (h ! b)"
  by (cases "b = a"; cases "a < length h") (simp_all add: store_own_def list_update_beyond)

lemma is_proxy_store_own [simp]: "is_proxy (store_own h a k v) b = is_proxy h b"
  by (simp add: is_proxy_def)

lemma own_get_store_own:
  "own_get (store_own h a k v) b k' =
     (if a = b \<and> k = k' \<and> a < length h then v else own_get h b k')"
  by (cases "a = b") (auto simp: own_get_def store_own_def map_of_put_member)

lemma own_get_store_own_same [simp]: "a < length h \<Longrightarrow> own_get (store_own h a k v) a k = v"
  by (simp add: own_get_store_own)

lemma own_get_store_own_other [simp]: "b \<noteq> a \<Longrightarrow> own_get (store_own h a k v) b k' = own_get h b k'"
  by (simp add: own_get_store_own)

lemma own_has_store_own:
  "own_has (store_own h a k v) b k' = (own_has h b k' \<or> (a = b \<and> k = k' \<and> a < length h))"
  by (cases "a = b") (auto simp: own_has_def store_own_def map_of_put_member)

lemma own_has_store_own_same [simp]: "a < length h \<Longrightarrow> own_has (store_own h a k v) a k"
  by (simp add: own_has_store_own)

lemma own_get_append [simp]: "a < length h \<Longrightarrow> own_get (h @ [x]) a k = own_get h a k"
  by (simp add: own_get_def nth_append)

lemma own_has_append [simp]: "a < length h \<Longrightarrow> own_has (h @ [x]) a k = own_has h a k"
  by (simp add: own_has_def nth_append)

lemma is_proxy_append [simp]: "a < length h \<Longrightarrow> is_proxy (h @ [x]) a = is_proxy h a"
  by (simp add: is_proxy_def nth_append)

lemma length_remove_own [simp]: "length (remove_own h a k) = length h"
  by (simp add: remove_own_def)

lemma own_get_remove_own:
  "own_get (remove_own h a k) b k' = (if a = b \<and> k = k' then VUndef else own_get h b k')"
  by (cases "a = b") (auto simp: own_get_def remove_own_def delete_conv')

lemma member_get_own: "own_has h a k \<Longrightarrow> member_get h a k = Inr (own_get h a k)"
  by (simp add: member_get_def own_has_def)

lemma own_has_iff: "own_has h a k \<longleftrightarrow> a < length h \<and> map_of (oprops (h ! a)) k \<noteq> None"
  by (simp add: own_has_def)


lemma ordinary_store_own [simp]: "ordinary (store_own h a k v) b = ordinary h b"
  by (simp add: ordinary_def)

lemma ordinary_append [simp]: "a < length h \<Longrightarrow> ordinary (h @ [x]) a = ordinary h a"
  by (simp add: ordinary_def)

lemma split_on_not_Nil: "split_on c s \<noteq> []"
  by (induction s) (auto split: list.splits)

lemma show_int_1: "show_int 1 = ''1''"
  by code_simp


section \<open>Properties of the reactive store\<close>

lemma wrappable_not_reactive: "wrappable h v \<Longrightarrow> \<not> is_reactive h v"
  by (simp add: wrappable_def)





text \<open>
  When the target of the container itself is frozen, the first read of a member that
  holds a plain object raises a TypeError: the handler assigns the wrapper to the member
  of the frozen target.
\<close>

lemma reactive_get_frozen_target:
  "get_prop [\<lparr>okind = PlainObj, ofrozen = True, oprops = [(''user'', VRef 1)]\<rparr>, plain_object [],
       \<lparr>okind = ReactiveProxy 0 (UserCb 0) ''data'', ofrozen = False, oprops = []\<rparr>]
     (VRef 2) ''user'' = Inl TypeError"
  by (simp add: get_prop_def reactive_get_def wrappable_def is_frozen_def is_proxy_def
      is_reactive_def is_date_def kind_of_def member_get_def own_get_def own_has_def
      plain_object_def makeReactive_def assign_own_def reflect_set_def nth_append)

lemma reflect_set_member:
  assumes "t < length h" and "okind (h ! t) = PlainObj \<or> okind (h ! t) = ArrayObj"
      and "\<not> ofrozen (h ! t)" and "k \<noteq> ''__proto__''"
      and "okind (h ! t) = ArrayObj \<longrightarrow> k \<noteq> ''length''"
  shows "reflect_set h t k v = Inr (store_own h t k v, True)"
  using assms by (auto simp add: reflect_set_def)

lemma member_get_store_own_same:
  "t < length h \<Longrightarrow> member_get (store_own h t k v) t k = Inr v"
  by (simp add: member_get_own)

lemma reactive_set_late:
  assumes old: "member_get h t k = Inr old"
      and late: "\<not> (v = old \<and> (js_typeof v \<noteq> TObject \<or> v = VNull))"
      and rs: "reflect_set h t k v = Inr (h1, True)"
  shows "reactive_set h calls t cb nm k v =
           (if starts_with ''_'' k then (h1, calls, Inr True)
            else
              (case json_stringify h1 old of
                 Inl e \<Rightarrow> (h1, calls, Inl e)
               | Inr so \<Rightarrow>
                   (case json_stringify h1 v of
                      Inl e \<Rightarrow> (h1, calls, Inl e)
                    | Inr sn \<Rightarrow>
                        if so \<noteq> sn \<and> cb \<noteq> NoCb then
                          (case invoke_cb cb h1 (VRef t) k v old calls of
                             Inl e \<Rightarrow> (h1, calls, Inl e)
                           | Inr calls' \<Rightarrow> (h1, calls', Inr True))
                        else (h1, calls, Inr True))))"
  unfolding reactive_set_def old rs sum.case prod.case if_not_P [OF late]
  by (simp split: sum.splits)

text \<open>A write through a reactive container.\<close>

lemma set_prop_container:
  assumes p: "p < length h" and pk: "okind (h ! p) = ReactiveProxy t cb nm"
      and t: "t < length h" and kd: "okind (h ! t) = PlainObj \<or> okind (h ! t) = ArrayObj"
      and nf: "\<not> ofrozen (h ! t)"
      and kp: "k \<noteq> ''__proto__''" and kl: "okind (h ! t) = ArrayObj \<longrightarrow> k \<noteq> ''length''"
      and old: "member_get h t k = Inr old"
      and js: "starts_with ''_'' k \<or>
               (json_stringify (store_own h t k v) old = Inr so \<and>
                json_stringify (store_own h t k v) v = Inr sn)"
      and cc: "cb = NoCb \<or> cb_call cb (store_own h t k v) (VRef t) k v old = Inr c"
  shows "\<exists>h1. set_prop h calls (VRef p) k v =
            (h1, if starts_with ''_'' k \<or> so = sn \<or> cb = NoCb then calls else calls @ [c],
             None) \<and>
          member_get h1 t k = Inr v \<and> (h1 = h \<or> h1 = store_own h t k v)"
proof (cases "v = old \<and> (js_typeof v \<noteq> TObject \<or> v = VNull)")
  case True
  have same: "starts_with ''_'' k \<or> so = sn"
    using js True by auto
  have "reactive_set h calls t cb nm k v = (h, calls, Inr True)"
    using True old by (auto simp add: reactive_set_def)
  then have "set_prop h calls (VRef p) k v = (h, calls, None)"
    using p pk by (simp add: set_prop_def)
  then show ?thesis
    using same old True by (intro exI [of _ h]) auto
next
  case False
  let ?h1 = "store_own h t k v"
  have rs: "reflect_set h t k v = Inr (?h1, True)"
    using t kd nf kp kl by (rule reflect_set_member)
  have mg: "member_get ?h1 t k = Inr v"
    using t by (rule member_get_store_own_same)
  have r: "reactive_set h calls t cb nm k v =
           (?h1, if starts_with ''_'' k \<or> so = sn \<or> cb = NoCb then calls else calls @ [c],
            Inr True)"
  proof (cases "starts_with ''_'' k")
    case True
    then show ?thesis
      by (simp add: reactive_set_late [OF old False rs])
  next
    case us: False
    then have j: "json_stringify ?h1 old = Inr so" "json_stringify ?h1 v = Inr sn"
      using js by simp_all
    show ?thesis
    proof (cases "so = sn \<or> cb = NoCb")
      case True
      then show ?thesis
        using us j by (auto simp add: reactive_set_late [OF old False rs])
    next
      case nb: False
      then have "cb_call cb ?h1 (VRef t) k v old = Inr c"
        using cc by simp
      then have "invoke_cb cb ?h1 (VRef t) k v old calls = Inr (calls @ [c])"
        by (simp add: invoke_cb_def)
      then show ?thesis
        using us j nb by (simp add: reactive_set_late [OF old False rs])
    qed
  qed
  have "set_prop h calls (VRef p) k v =
          (?h1, if starts_with ''_'' k \<or> so = sn \<or> cb = NoCb then calls else calls @ [c], None)"
    using p pk r by (simp add: set_prop_def)
  then show ?thesis
    using mg by (intro exI [of _ ?h1]) simp
qed




text \<open>
  Values that differ and have one serialisation are not told apart either: replacing an
  empty object by an object whose one member is \<^verbatim>\<open>undefined\<close> records no call.
\<close>

lemma reactive_set_same_json:
  "set_prop [plain_object [(''opts'', VRef 1)], plain_object [], plain_object [(''a'', VUndef)],
       \<lparr>okind = ReactiveProxy 0 (UserCb 0) ''data'', ofrozen = False, oprops = []\<rparr>]
     [] (VRef 3) ''opts'' (VRef 2) =
   ([plain_object [(''opts'', VRef 2)], plain_object [], plain_object [(''a'', VUndef)],
     \<lparr>okind = ReactiveProxy 0 (UserCb 0) ''data'', ofrozen = False, oprops = []\<rparr>], [], None)"
  by (simp add: set_prop_def reactive_set_def reflect_set_def store_own_def put_member_def
      member_get_def own_get_def own_has_def starts_with_def plain_object_def json_stringify_def)

text \<open>
  The old value is read through the prototype: a first write to \<^verbatim>\<open>valueOf\<close> passes
  the inherited function to the callback.
\<close>

lemma reactive_set_inherited_old:
  "set_prop [plain_object [],
       \<lparr>okind = ReactiveProxy 0 (UserCb 0) ''data'', ofrozen = False, oprops = []\<rparr>]
     [] (VRef 1) ''valueOf'' (VNum 1) =
   ([plain_object [(''valueOf'', VNum 1)],
     \<lparr>okind = ReactiveProxy 0 (UserCb 0) ''data'', ofrozen = False, oprops = []\<rparr>],
    [\<lparr>cb_fun = UserCb 0, cb_target = VRef 0, cb_key = ''valueOf'', cb_new = VNum 1,
       cb_old = VBuiltin ''Object.prototype.valueOf''\<rparr>], None)"
  by (simp add: set_prop_def reactive_set_def reflect_set_def store_own_def put_member_def
      member_get_def inherited_def object_prototype_names_def own_get_def own_has_def
      starts_with_def plain_object_def json_stringify_def invoke_cb_def index_of_key_def
      is_digit_def show_int_1)

text \<open>
  A container that the get handler made for a nested object reports a change to the
  callback of the outer container, with the outer target and key, the nested container as
  the new value and the nested object as the old one.
\<close>

lemma reactive_set_nested:
  "set_prop [plain_object [(''user'', VRef 3)], plain_object [(''name'', VStr ''x'')],
       \<lparr>okind = ReactiveProxy 0 (UserCb 0) ''data'', ofrozen = False, oprops = []\<rparr>,
       \<lparr>okind = ReactiveProxy 1 (NestedCb (UserCb 0) 0 ''user'' (VRef 1)) ''data.user'',
          ofrozen = False, oprops = []\<rparr>]
     [] (VRef 3) ''name'' (VStr ''y'') =
   ([plain_object [(''user'', VRef 3)], plain_object [(''name'', VStr ''y'')],
       \<lparr>okind = ReactiveProxy 0 (UserCb 0) ''data'', ofrozen = False, oprops = []\<rparr>,
       \<lparr>okind = ReactiveProxy 1 (NestedCb (UserCb 0) 0 ''user'' (VRef 1)) ''data.user'',
          ofrozen = False, oprops = []\<rparr>],
    [\<lparr>cb_fun = UserCb 0, cb_target = VRef 0, cb_key = ''user'', cb_new = VRef 3,
       cb_old = VRef 1\<rparr>], None)"
  by (simp add: set_prop_def reactive_set_def reflect_set_def store_own_def put_member_def
      member_get_def own_get_def own_has_def starts_with_def plain_object_def
      json_stringify_def json_quote_def json_escape_char_def invoke_cb_def)

section \<open>Properties of the render scheduler and of \<^verbatim>\<open>applyData\<close>\<close>
















text \<open>
  The first callback of the queued render (lines 2288 to 2290): the compilation starts
  with the flag cleared, so a change of root data during it is scheduled again.
\<close>

lemma scheduled_render_clears_flag:
  assumes "microtasks e = RootRerenderThen # ts"
  shows "next_microtask process e =
           (case reRenderRoot process (currentRootTemplateString e) (currentRootData e)
                   (e\<lparr>microtasks := ts, rootRerenderScheduled := False\<rparr>) of
              (e1, Inr u) \<Rightarrow> e1
            | (e1, Inl err) \<Rightarrow> e1\<lparr>microtasks := microtasks e1 @ [RootRerenderCatch]\<rparr>)"
  using assms by (simp add: next_microtask_def run_microtask_def)



text \<open>
  A render that writes root data schedules the next render: the flag was cleared before
  the compilation started.
\<close>

lemma render_reschedules:
  "rootRerenderScheduled (next_microtask writing_render demo_engine_after) \<and>
   microtasks (next_microtask writing_render demo_engine_after) = [RootRerenderThen] \<and>
   renders (next_microtask writing_render demo_engine_after) = [(VNull, VRef 1)] \<and>
   own_get (e_heap (next_microtask writing_render demo_engine_after)) 0 ''fetchedData'' = VNum 1"
  by (simp add: next_microtask_def run_microtask_def reRenderRoot_def writing_render_def
      demo_engine_after_def demo_engine_def Let_def e_set_def set_prop_def reactive_set_def
      reflect_set_def store_own_def put_member_def member_get_def inherited_def
      object_prototype_names_def own_get_def own_has_def starts_with_def plain_object_def
      json_stringify_def invoke_cb_def index_of_key_def is_digit_def show_int_1
      dispatch_call_def root_cb_def rootDataUpdateCallback_def scheduleRootReRender_def)

text \<open>A write to \<^verbatim>\<open>$state\<close> schedules a render when the root template mentions it.\<close>

lemma state_write_schedules:
  "fst (e_set (VRef 5) ''n'' (VNum 1)
          (demo_engine\<lparr>currentRootTemplateString := VStr ''{{ $state.n }}''\<rparr>)) =
   demo_engine
     \<lparr>e_heap := store_own (e_heap demo_engine) 4 ''n'' (VNum 1),
      currentRootTemplateString := VStr ''{{ $state.n }}'',
      rootRerenderScheduled := True, microtasks := [RootRerenderThen]\<rparr>"
  by (simp add: demo_engine_def e_set_def set_prop_def reactive_set_def
      reflect_set_def store_own_def put_member_def member_get_def inherited_def
      object_prototype_names_def own_get_def own_has_def starts_with_def plain_object_def
      json_stringify_def invoke_cb_def index_of_key_def is_digit_def show_int_1
      dispatch_call_def root_cb_def globalData_cb_def state_cb_def stateCallback_def
      updateComponentsUsingGlobalStateOrGlobalData_def expressionUsesGlobal_def
      scheduleRootReRender_def)

lemma rootTemplate_explicit: "truthy t \<Longrightarrow> rootTemplate e t = t"
  by (simp add: rootTemplate_def Let_def)

lemma rootTemplate_innerHTML:
  "\<not> truthy t \<Longrightarrow> root_innerHTML e \<noteq> [] \<Longrightarrow> rootTemplate e t = VStr (root_innerHTML e)"
  by (simp add: rootTemplate_def Let_def)

lemma rootTemplate_original:
  "\<not> truthy t \<Longrightarrow> root_innerHTML e = [] \<Longrightarrow> rootTemplate e t = VStr (originalRootTemplate e)"
  by (simp add: rootTemplate_def Let_def)




text \<open>
  The same call in full, with a compilation that writes a member of the data: the new
  target is no longer empty afterwards, and the write has scheduled a render.
\<close>

lemma applyData_writing_example:
  "applyData writing_render (VNum 5) VNull (demo_engine\<lparr>root_innerHTML := ''<p>{{ x }}</p>''\<rparr>) =
     (demo_engine
        \<lparr>e_heap := e_heap demo_engine @
           [plain_object [(''fetchedData'', VNum 1)],
            \<lparr>okind = ReactiveProxy 6 (UserCb root_cb) ''_currentRootData_userProvided'',
               ofrozen = False, oprops = []\<rparr>],
         root_innerHTML := ''<p>hi</p>'',
         currentRootData := VRef 7, currentRootDataTarget := VRef 6,
         currentRootTemplateString := VStr ''<p>{{ x }}</p>'',
         rootRerenderScheduled := True, microtasks := [RootRerenderThen], rootChanges := 1,
         renders := [(VStr ''<p>{{ x }}</p>'', VRef 7)]\<rparr>,
      Inr ())"
  by (simp add: applyData_def alloc_def own_keys_def makeReactive_def is_reactive_def
      is_proxy_def rootTemplate_def reRenderRoot_def writing_render_def
      demo_engine_def Let_def e_set_def set_prop_def reactive_set_def
      reflect_set_def store_own_def put_member_def member_get_def inherited_def
      object_prototype_names_def own_get_def own_has_def starts_with_def plain_object_def
      json_stringify_def invoke_cb_def index_of_key_def is_digit_def show_int_1
      dispatch_call_def root_cb_def rootDataUpdateCallback_def scheduleRootReRender_def)

section \<open>Properties of the fetch directive\<close>







lemma e_heap_schedule [simp]: "e_heap (scheduleRootReRender e) = e_heap e"
  by (simp add: scheduleRootReRender_def)









lemma class_engine [simp]:
  "fw_engine (class_add nd cls w) = fw_engine w"
  "fw_engine (class_remove nd cls w) = fw_engine w"
  by (simp_all add: class_add_def class_remove_def split: option.splits)




text \<open>The container that the directive makes is one of those studied here.\<close>

lemma newFetchContainer_shape:
  assumes "newFetchContainer h ci tc dc key = (h', cv)"
  shows "cv = VRef (Suc (length h)) \<and> length h' = Suc (Suc (length h)) \<and>
         okind (h' ! Suc (length h)) =
           ReactiveProxy (length h) (FetchStateCb ci tc dc) (''fetchState_'' @ key) \<and>
         okind (h' ! length h) = PlainObj \<and> \<not> ofrozen (h' ! length h) \<and>
         own_get h' (length h) ''_spxLastFetchId'' = VNull \<and>
         own_get h' (length h) ''$loading'' = VBool False"
  using assms
  by (auto simp add: newFetchContainer_def alloc_def makeReactive_def is_reactive_def
      is_proxy_def own_get_def plain_object_def nth_append)

lemma fetch_demo_explicit:
  "fetch_demo =
     \<lparr>fw_engine =
        demo_engine
          \<lparr>e_heap := e_heap demo_engine @
             [\<lparr>okind = NodeObj, ofrozen = False, oprops = []\<rparr>,
              plain_object
                [(''$loading'', VBool False), (''$error'', VNull), (''data'', VNull),
                 (''_spxLastFetchId'', VNull),
                 (''_spxLastFetchCompletedSuccessfully'', VBool False),
                 (''_spxIsCurrentlyFetching'', VBool False)],
              \<lparr>okind = ReactiveProxy 7 (FetchStateCb VNull (VRef 1) (VRef 1))
                         ''fetchState_fetchedData'',
                 ofrozen = False, oprops = []\<rparr>]\<rparr>,
      fw_classList = [(6, [])], fw_requests = []\<rparr>"
  by (simp add: fetch_demo_def newFetchContainer_def alloc_def makeReactive_def
      is_reactive_def is_proxy_def own_get_def plain_object_def demo_engine_def)

lemma startFetch_demo:
  "startFetch fetch_demo 6 (VRef 8) ''/api/a'' ''GET'' (Some ''is-loading'') (Some ''has-error'')
     False = (fetch_demo_pending, Inr ())"
  by code_simp



text \<open>
  The request for \<^verbatim>\<open>/api/a\<close> fails and no other microtask runs between its handlers:
  the states after the \<^verbatim>\<open>catch\<close> and after the \<^verbatim>\<open>finally\<close> handler.
\<close>

lemma fetch_demo_failure:
  "(case run_stmts (fetch_catch fetch_demo_request
            (RejectObject (Some ''HTTP error 500: down'') ''Error: HTTP error 500: down''))
           fetch_demo_pending of
      (w1, r1) \<Rightarrow>
        (case run_stmts (fetch_finally fetch_demo_request) w1 of
           (w2, r2) \<Rightarrow>
             (r1, r2, own_get (e_heap (fw_engine w2)) 7 ''data'',
              own_get (e_heap (fw_engine w2)) 7 ''$error'',
              own_get (e_heap (fw_engine w2)) 7 ''$loading'',
              own_get (e_heap (fw_engine w2)) 6 marker_key,
              own_get (e_heap (fw_engine w2)) 7 ''_spxIsCurrentlyFetching'',
              fw_classList w2, rootRerenderScheduled (fw_engine w2)))) =
   (None, None, VNull, VStr ''HTTP error 500: down'', VBool False, VUndef, VBool False,
    [(6, [''has-error''])], True)"
  by code_simp


section \<open>Properties of component instances\<close>

text \<open>Destroying a live component sets the flag and clears the host element reference.\<close>

lemma destroyComponent_marks:
  assumes "c < length h" and "\<not> truthy (own_get h c ''_destroyed'')"
  shows "own_get (destroyComponent h (VRef c)) c ''_destroyed'' = VBool True \<and>
         own_get (destroyComponent h (VRef c)) c ''$el'' = VNull"
  using assms
  by (simp add: destroyComponent_def Let_def nullifyProps_def propsToClean_def
      own_get_store_own own_get_remove_own split: jsval.splits)

text \<open>
  Claim C9.  On an instance whose \<^verbatim>\<open>_destroyed\<close> flag is set, \<^verbatim>\<open>$emit\<close> returns
  at once for every event name and payload: no event is dispatched and nothing is raised,
  although the host element reference is gone.
\<close>

theorem emit_destroyed_noop:
  assumes "truthy (own_get h c ''_destroyed'')"
  shows "emit h dispatched c ev detail = Inr dispatched"
  using assms by (simp add: emit_def)

theorem emit_destroyed_noop_witness:
  "emit mounted_heap [] 1 ''update:x'' [VNum 1] =
     Inr [(0, \<lparr>ev_type = ''update:x'', ev_detail = DetailValue (VNum 1), ev_bubbles = True,
               ev_composed = True\<rparr>)] \<and>
   truthy (own_get (destroyComponent mounted_heap (VRef 1)) 1 ''_destroyed'') \<and>
   own_get (destroyComponent mounted_heap (VRef 1)) 1 ''$el'' = VNull \<and>
   emit (destroyComponent mounted_heap (VRef 1)) [] 1 ''update:x'' [VNum 1] = Inr []"
proof -
  have l: "(1::nat) < length mounted_heap"
    by (simp add: mounted_heap_def)
  have n: "\<not> truthy (own_get mounted_heap 1 ''_destroyed'')"
    by (simp add: mounted_heap_def own_get_def plain_object_def)
  have d: "truthy (own_get (destroyComponent mounted_heap (VRef 1)) 1 ''_destroyed'')"
    using destroyComponent_marks [OF l n] by simp
  have e: "emit mounted_heap [] 1 ''update:x'' [VNum 1] =
     Inr [(0, \<lparr>ev_type = ''update:x'', ev_detail = DetailValue (VNum 1), ev_bubbles = True,
               ev_composed = True\<rparr>)]"
    by (simp add: emit_def mounted_heap_def own_get_def kind_of_def plain_object_def Let_def)
  show ?thesis
    using emit_destroyed_noop [OF d, of "[]" "''update:x''" "[VNum 1]"] d e
      destroyComponent_marks [OF l n]
    by simp
qed

section \<open>Properties of the template context\<close>

text \<open>
  Without a \<^verbatim>\<open>data\<close> function the trap refuses a key that is a member of the props
  container and not of the data container: it returns \<^verbatim>\<open>false\<close>, logs one warning,
  records no call and leaves the store as it is.
\<close>

lemma templateContext_set_prop_rejected:
  assumes "js_typeof (own_get h componentDef ''data'') \<noteq> TFunction"
      and "\<not> truthy (own_get h target ''_componentData'') \<or>
           has_prop h (own_get h target ''_componentData'') key = Inr False"
      and "truthy (own_get h target ''$props'')"
      and "has_prop h (own_get h target ''$props'') key = Inr True"
  shows "templateContext_set engineState componentDef h calls cons target key v =
         (h, calls,
          cons @ [''Spandrix: Cannot set prop \"'' @ key @ ''\" on <'' @
                  (case own_get h componentDef ''_name'' of VStr nm \<Rightarrow> nm | _ \<Rightarrow> ''undefined'') @
                  ''>. Props are one-way.''],
          Inr False)"
  using assms by (auto simp add: templateContext_set_def Let_def)

lemma templateContext_set_prop_rejected_example:
  "templateContext_set VNull 0 (card_heap VUndef) [] [] 5 ''title'' (VStr ''b'') =
     (card_heap VUndef, [],
      [''Spandrix: Cannot set prop \"title\" on <user-card>. Props are one-way.''], Inr False)"
proof -
  have a1: "js_typeof (own_get (card_heap VUndef) 0 ''data'') \<noteq> TFunction"
    by (simp add: card_heap_def own_get_def plain_object_def)
  have a2: "\<not> truthy (own_get (card_heap VUndef) 5 ''_componentData'') \<or>
            has_prop (card_heap VUndef) (own_get (card_heap VUndef) 5 ''_componentData'') ''title'' =
              Inr False"
    by (simp add: card_heap_def own_get_def has_prop_def member_has_def own_has_def
        plain_object_def inherited_def object_prototype_names_def)
  have a3: "truthy (own_get (card_heap VUndef) 5 ''$props'')"
    by (simp add: card_heap_def own_get_def plain_object_def)
  have a4: "has_prop (card_heap VUndef) (own_get (card_heap VUndef) 5 ''$props'') ''title'' = Inr True"
    by (simp add: card_heap_def own_get_def has_prop_def member_has_def own_has_def
        plain_object_def)
  have n: "own_get (card_heap VUndef) 0 ''_name'' = VStr ''user-card''"
    by (simp add: card_heap_def own_get_def plain_object_def)
  show ?thesis
    using templateContext_set_prop_rejected [OF a1 a2 a3 a4, of VNull "[]" "[]" "VStr ''b''"] n
    by simp
qed

text \<open>
  Claim C7 fails.  When the member \<^verbatim>\<open>data\<close> of the component definition is a
  function, the data container is a reactive container over a plain object that is not
  frozen, and the key is a member of the props container and no member of the data
  container, the trap does not refuse the assignment: it stores the value in the data
  container, calls the callback of the data container as for any other write, logs no
  warning and returns \<^verbatim>\<open>true\<close>.
\<close>

theorem templateContext_set_prop_stored:
  assumes df: "js_typeof (own_get h componentDef ''data'') = TFunction"
      and cd: "own_get h target ''_componentData'' = VRef d"
      and d: "d < length h" and dk: "okind (h ! d) = ReactiveProxy t cb nm"
      and t: "t < length h" and kd: "okind (h ! t) = PlainObj" and nf: "\<not> ofrozen (h ! t)"
      and inprops: "has_prop h (own_get h target ''$props'') key = Inr True"
      and nodata: "has_prop h (VRef d) key = Inr False"
      and js: "starts_with ''_'' key \<or>
               (json_stringify (store_own h t key v) VUndef = Inr so \<and>
                json_stringify (store_own h t key v) v = Inr sn)"
      and cc: "cb = NoCb \<or> cb_call cb (store_own h t key v) (VRef t) key v VUndef = Inr c"
  shows "\<exists>h1. templateContext_set engineState componentDef h calls cons target key v =
            (h1, if starts_with ''_'' key \<or> so = sn \<or> cb = NoCb then calls else calls @ [c],
             cons, Inr True) \<and>
          member_get h1 t key = Inr v \<and> (h1 = h \<or> h1 = store_own h t key v)"
proof -
  have mh: "member_has h t key = Inr False"
    using nodata d dk by (simp add: has_prop_def)
  have kp: "key \<noteq> ''__proto__''"
    using mh t by (auto simp add: member_has_def split: if_splits)
  have old: "member_get h t key = Inr VUndef"
    using mh t kd kp
    by (auto simp add: member_has_def member_get_def inherited_def split: if_splits)
  have kl: "okind (h ! t) = ArrayObj \<longrightarrow> key \<noteq> ''length''"
    using kd by simp
  have kd': "okind (h ! t) = PlainObj \<or> okind (h ! t) = ArrayObj"
    using kd by simp
  obtain h1 where s: "set_prop h calls (VRef d) key v =
            (h1, if starts_with ''_'' key \<or> so = sn \<or> cb = NoCb then calls else calls @ [c],
             None)"
    and m: "member_get h1 t key = Inr v" and f: "h1 = h \<or> h1 = store_own h t key v"
    using set_prop_container [OF d dk t kd' nf kp kl old js cc, of calls] by blast
  have "templateContext_set engineState componentDef h calls cons target key v =
            (h1, if starts_with ''_'' key \<or> so = sn \<or> cb = NoCb then calls else calls @ [c],
             cons, Inr True)"
    using df cd nodata s by (simp add: templateContext_set_def Let_def)
  then show ?thesis
    using m f by blast
qed

theorem templateContext_set_prop_stored_witness:
  "js_typeof (own_get (card_heap (VFun 0)) 0 ''data'') = TFunction \<and>
   has_prop (card_heap (VFun 0)) (own_get (card_heap (VFun 0)) 5 ''$props'') ''title'' = Inr True \<and>
   has_prop (card_heap (VFun 0)) (VRef 2) ''title'' = Inr False \<and>
   (\<exists>h1. templateContext_set VNull 0 (card_heap (VFun 0)) [] [] 5 ''title'' (VStr ''b'') =
           (h1, [\<lparr>cb_fun = UserCb 7, cb_target = VRef 1, cb_key = ''title'', cb_new = VStr ''b'',
                   cb_old = VUndef\<rparr>], [], Inr True) \<and>
         member_get h1 1 ''title'' = Inr (VStr ''b'') \<and>
         own_get h1 3 ''title'' = VStr ''a'')"
proof -
  let ?h = "card_heap (VFun 0)"
  let ?c = "\<lparr>cb_fun = UserCb 7, cb_target = VRef 1, cb_key = ''title'', cb_new = VStr ''b'',
             cb_old = VUndef\<rparr>"
  have a1: "js_typeof (own_get ?h 0 ''data'') = TFunction"
    by (simp add: card_heap_def own_get_def plain_object_def)
  have a2: "own_get ?h 5 ''_componentData'' = VRef 2"
    by (simp add: card_heap_def own_get_def plain_object_def)
  have a3: "(2::nat) < length ?h" by (simp add: card_heap_def)
  have a4: "okind (?h ! 2) = ReactiveProxy 1 (UserCb 7) ''<user-card>._componentData''"
    by (simp add: card_heap_def)
  have a5: "(1::nat) < length ?h" by (simp add: card_heap_def)
  have a6: "okind (?h ! 1) = PlainObj" by (simp add: card_heap_def plain_object_def)
  have a7: "\<not> ofrozen (?h ! 1)" by (simp add: card_heap_def plain_object_def)
  have a8: "has_prop ?h (own_get ?h 5 ''$props'') ''title'' = Inr True"
    by (simp add: card_heap_def own_get_def has_prop_def member_has_def own_has_def
        plain_object_def)
  have a9: "has_prop ?h (VRef 2) ''title'' = Inr False"
    by (simp add: card_heap_def has_prop_def member_has_def own_has_def plain_object_def
        inherited_def object_prototype_names_def)
  have a10: "starts_with ''_'' ''title'' \<or>
             (json_stringify (store_own ?h 1 ''title'' (VStr ''b'')) VUndef = Inr None \<and>
              json_stringify (store_own ?h 1 ''title'' (VStr ''b'')) (VStr ''b'') =
                Inr (Some ''\"b\"''))"
    by (simp add: json_stringify_def json_quote_def json_escape_char_def)
  have a11: "UserCb 7 = NoCb \<or>
             cb_call (UserCb 7) (store_own ?h 1 ''title'' (VStr ''b'')) (VRef 1) ''title''
               (VStr ''b'') VUndef = Inr ?c"
    by simp
  have us: "\<not> starts_with ''_'' ''title''" by (simp add: starts_with_def)
  have p: "own_get ?h 3 ''title'' = VStr ''a''"
    by (simp add: card_heap_def own_get_def plain_object_def)
  have l: "(3::nat) \<noteq> 1" by simp
  show ?thesis
    using templateContext_set_prop_stored [OF a1 a2 a3 a4 a5 a6 a7 a8 a9 a10 a11,
        of VNull "[]" "[]"] a1 a8 a9 us p
    by (auto simp add: own_get_store_own)
qed

section \<open>Properties of the expression evaluator\<close>

lemma js_trim_Nil_iff: "js_trim s = [] \<longleftrightarrow> (\<forall>c\<in>set s. js_space c)"
proof
  assume "js_trim s = []"
  then have "\<forall>c\<in>set (dropWhile js_space s). js_space c"
    by (simp add: js_trim_def)
  then have "dropWhile js_space s = []"
    by (metis hd_dropWhile list.set_sel(1))
  then show "\<forall>c\<in>set s. js_space c"
    by simp
next
  assume "\<forall>c\<in>set s. js_space c"
  then have "dropWhile js_space s = []"
    by simp
  then show "js_trim s = []"
    by (simp add: js_trim_def del: dropWhile_eq_Nil_conv)
qed

lemma canon_space: "js_space c \<Longrightarrow> canon c = c"
  by (auto simp: js_space_def canon_def)

lemma match_here_first:
  assumes "match_here p (c # cs)" and "word_of p = x # xs"
  shows "canon x = canon c"
  using assms by (cases p) (auto simp: word_of_def split: if_splits option.splits)

lemma match_here_Nil: "word_of p \<noteq> [] \<Longrightarrow> \<not> match_here p []"
  by (cases p; cases "word_of p") (auto simp: word_of_def)

lemma regex_test_nonspace:
  assumes "regex_test p s" and "word_of p = x # xs" and "\<not> js_space (canon x)"
  shows "\<exists>c\<in>set s. \<not> js_space c"
  using assms(1)
proof (induction s)
  case Nil
  then show ?case using match_here_Nil [of p] assms(2) by simp
next
  case (Cons c cs)
  show ?case
  proof (cases "match_here p (c # cs)")
    case True
    then have "canon x = canon c" using assms(2) by (rule match_here_first)
    then have "\<not> js_space c" using assms(3) canon_space [of c] by auto
    then show ?thesis by auto
  next
    case False
    then show ?thesis using Cons by auto
  qed
qed

lemma dangerous_first:
  "p \<in> set dangerousPatterns \<Longrightarrow> \<exists>x xs. word_of p = x # xs \<and> \<not> js_space (canon x)"
  by (auto simp: dangerousPatterns_def word_of_def js_space_def canon_def)

lemma blocked_not_blank:
  assumes "\<not> isValidExpression ex"
  shows "ex \<noteq> [] \<and> js_trim ex \<noteq> []"
proof -
  from assms obtain p where p: "p \<in> set dangerousPatterns" and t: "regex_test p ex"
    by (auto simp: isValidExpression_def list_ex_iff)
  from dangerous_first [OF p] obtain x xs where "word_of p = x # xs" "\<not> js_space (canon x)"
    by blast
  with t have "\<exists>c\<in>set ex. \<not> js_space c" by (rule regex_test_nonspace)
  then show ?thesis by (auto simp: js_trim_Nil_iff)
qed

text \<open>
  Claim C3.  For an expression string that matches one of the six patterns,
  \<^verbatim>\<open>_buildScopedEvaluator\<close> logs the warning and returns the no-op evaluator, whatever
  the data context, the component instance and the extra scope are; calling that
  evaluator returns \<^verbatim>\<open>undefined\<close>, in strict mode too.
\<close>

theorem blocked_expression_noop:
  assumes "\<not> isValidExpression ex"
  shows "buildScopedEvaluator parses h globalDataObj cons (VStr ex) baseDataContext
           componentInstance additionalScope =
           (NoOp, cons @ [''Spandrix: Blocked unsafe expression: \"'' @ ex @ ''\"'']) \<and>
         run_evaluator strict invoke
           (fst (buildScopedEvaluator parses h globalDataObj cons (VStr ex) baseDataContext
              componentInstance additionalScope)) = Inr VUndef"
  using assms blocked_not_blank [OF assms] by (simp add: buildScopedEvaluator_def)

theorem blocked_expression_noop_witness:
  "\<not> isValidExpression ''eval (1)'' \<and>
   buildScopedEvaluator (\<lambda>ks e. True) [] VNull [] (VStr ''eval (1)'') VNull VNull VNull =
     (NoOp, [''Spandrix: Blocked unsafe expression: \"eval (1)\"'']) \<and>
   run_evaluator True (\<lambda>ks e. Inr (VNum 1))
     (fst (buildScopedEvaluator (\<lambda>ks e. True) [] VNull [] (VStr ''eval (1)'') VNull VNull VNull)) =
     Inr VUndef"
proof -
  have b: "\<not> isValidExpression ''eval (1)''"
    by (simp add: isValidExpression_def dangerousPatterns_def canon_def js_space_def)
  show ?thesis
    using blocked_expression_noop [OF b, of "\<lambda>ks e. True" "[]" VNull "[]" VNull VNull VNull
        True "\<lambda>ks e. Inr (VNum 1)"] b
    by simp
qed

text \<open>The patterns have no word boundary: a call of \<^verbatim>\<open>myFunction\<close> is blocked too.\<close>

lemma blocked_myFunction: "\<not> isValidExpression ''myFunction(1)''"
  by (simp add: isValidExpression_def dangerousPatterns_def canon_def js_space_def)


section \<open>Properties of the interpolation\<close>

text \<open>
  Claim C2 at the template \<^verbatim>\<open>{{{}}}\<close>.  The first alternative matches with an empty
  group, \<^verbatim>\<open>!!rawExpr\<close> is \<^verbatim>\<open>false\<close> for the empty string, and the function then
  calls \<^verbatim>\<open>trim\<close> on the second group, which is \<^verbatim>\<open>undefined\<close>: a TypeError, whatever
  the options and the context are.
\<close>

theorem interpolateString_empty_raw:
  "interpolateString env ''{{{}}}'' dataContext componentInstance loopScope cons = Inl TypeError"
  by (simp add: interpolateString_def match_at_def starts_with_def render_match_def)

theorem interpolateString_empty_raw_witness:
  "interpolateString (demo_env False) ''{{{}}}'' (VRef 0) VNull VNull [] = Inl TypeError \<and>
   interpolateString (demo_env True) ''{{{}}}'' (VRef 0) VNull VNull [] = Inl TypeError"
  using interpolateString_empty_raw [of "demo_env False" "VRef 0" VNull VNull "[]"]
    interpolateString_empty_raw [of "demo_env True" "VRef 0" VNull VNull "[]"]
  by simp

text \<open>
  What the claim says holds for the segments with a group that is not empty.  The escaped
  text of a string has no angle bracket.
\<close>

lemma sanitizeHTML_no_angle:
  "c \<in> set (sanitizeHTML env (VStr s)) \<Longrightarrow> c \<noteq> CHR ''<'' \<and> c \<noteq> CHR ''>''"
  by (auto simp: sanitizeHTML_def html_escape_char_def split: if_splits)

text \<open>
  A raw segment with a group that is not empty: whenever the replacement function
  returns, it returns the string of the value, unescaped (the empty string for
  \<^verbatim>\<open>null\<close> and \<^verbatim>\<open>undefined\<close>), when \<^verbatim>\<open>allowRawHTML\<close> is on, and otherwise
  the placeholder, with the warning logged last.
\<close>

lemma render_match_raw:
  assumes "r \<noteq> []"
      and "render_match env d ci ls cons (Some r) None = Inr (out, cons')"
  shows "\<exists>v cons2.
           (if allowRawHTML (env_options env)
            then out = js_to_string env (if v = VUndef \<or> v = VNull then VStr [] else v) \<and>
                 cons' = cons2
            else out = js_to_string env (missingValuePlaceholder (env_options env)) \<and>
                 cons' = cons2 @ [''Spandrix: Raw HTML disabled for {{{ '' @
                      hd (map js_trim (split_on CHR ''|'' (js_trim r))) @ '' }}}''])"
proof -
  obtain expression filterCalls where
    p: "map js_trim (split_on CHR ''|'' (js_trim r)) = expression # filterCalls"
    using split_on_not_Nil [of "CHR ''|''" "js_trim r"]
    by (cases "map js_trim (split_on CHR ''|'' (js_trim r))") auto
  obtain ev cons1 where
    b: "buildScopedEvaluator (env_parses env) (env_heap env) (env_globalData env) cons
          (VStr expression) d ci ls = (ev, cons1)"
    by (cases "buildScopedEvaluator (env_parses env) (env_heap env) (env_globalData env) cons
          (VStr expression) d ci ls")
  obtain v0 where
    e: "run_evaluator (strictExpressions (env_options env)) (env_invoke env) ev = Inr v0"
    using assms p b
    by (cases "run_evaluator (strictExpressions (env_options env)) (env_invoke env) ev")
       (simp_all add: render_match_def)
  obtain v cons2 where f: "apply_filters env filterCalls v0 cons1 = (v, cons2)"
    by (cases "apply_filters env filterCalls v0 cons1")
  have res: "render_match env d ci ls cons (Some r) None =
      (if \<not> allowRawHTML (env_options env)
       then Inr (js_to_string env (missingValuePlaceholder (env_options env)),
                 cons2 @ [''Spandrix: Raw HTML disabled for {{{ '' @ expression @ '' }}}''])
       else Inr (js_to_string env (if v = VUndef \<or> v = VNull then VStr [] else v), cons2))"
    using assms(1) p b e f by (simp add: render_match_def)
  show ?thesis
  proof (cases "allowRawHTML (env_options env)")
    case True
    then have "out = js_to_string env (if v = VUndef \<or> v = VNull then VStr [] else v)"
      and "cons' = cons2"
      using res assms(2) by simp_all
    then show ?thesis
      using True by (intro exI [of _ v] exI [of _ cons2]) simp
  next
    case False
    then have "out = js_to_string env (missingValuePlaceholder (env_options env))"
      and "cons' = cons2 @ [''Spandrix: Raw HTML disabled for {{{ '' @ expression @ '' }}}'']"
      using res assms(2) by simp_all
    then show ?thesis
      using False p by (intro exI [of _ v] exI [of _ cons2]) simp
  qed
qed

text \<open>The examples of the specification, and an object value.\<close>

lemma interpolate_escaped_example:
  "interpolateString (demo_env False) ''{{ msg }}'' (VRef 0) VNull VNull [] =
     Inr (''&lt;b&gt;x&lt;/b&gt;'', [])"
  by (simp add: interpolateString_def match_at_def starts_with_def render_match_def
      demo_env_def js_trim_def js_space_def buildScopedEvaluator_def isValidExpression_def
      dangerousPatterns_def canon_def Let_def sanitizeHTML_def html_escape_char_def
      js_to_string_def)

lemma interpolate_raw_enabled_example:
  "interpolateString (demo_env True) ''{{{ msg }}}'' (VRef 0) VNull VNull [] =
     Inr (''<b>x</b>'', [])"
  by (simp add: interpolateString_def match_at_def starts_with_def render_match_def
      demo_env_def js_trim_def js_space_def buildScopedEvaluator_def isValidExpression_def
      dangerousPatterns_def canon_def Let_def js_to_string_def)

lemma interpolate_raw_disabled_example:
  "interpolateString (demo_env False) ''{{{ msg }}}'' (VRef 0) VNull VNull [] =
     Inr (''-'', [''Spandrix: Raw HTML disabled for {{{ msg }}}''])"
  by (simp add: interpolateString_def match_at_def starts_with_def render_match_def
      demo_env_def js_trim_def js_space_def buildScopedEvaluator_def isValidExpression_def
      dangerousPatterns_def canon_def Let_def js_to_string_def)

lemma interpolate_missing_example:
  "interpolateString (demo_env False) ''{{ nothing }}'' (VRef 0) VNull VNull [] =
     Inr (''-'', [])"
  by (simp add: interpolateString_def match_at_def starts_with_def render_match_def
      demo_env_def js_trim_def js_space_def buildScopedEvaluator_def isValidExpression_def
      dangerousPatterns_def canon_def Let_def sanitizeHTML_def html_escape_char_def
      js_to_string_def)

lemma interpolate_object_example:
  "interpolateString (demo_env False) ''{{ obj }}'' (VRef 0) VNull VNull [] =
     Inr (''{\"n\":1}'', [])"
  by (simp add: interpolateString_def match_at_def starts_with_def render_match_def
      demo_env_def js_trim_def js_space_def buildScopedEvaluator_def isValidExpression_def
      dangerousPatterns_def canon_def Let_def sanitizeHTML_def html_escape_char_def
      js_to_string_def json_stringify_def json_quote_def json_escape_char_def
      plain_object_def show_int_1)


end
